theory Spec2Isabelle
  imports Main
begin

section \<open>The publish command of the pilet tooling\<close>

text \<open>
  This theory embeds \<^verbatim>\<open>src/tooling/piral-cli/src/apps/publish-pilet.ts\<close>: the
  function \<^verbatim>\<open>getFiles\<close>, which resolves the files to publish, and the function
  \<^verbatim>\<open>publishPilet\<close>, which reads the options, loads the certificate, resolves the
  files, uploads them one after the other and reports the verdict.

  The helpers imported from \<^verbatim>\<open>../common\<close> (file system, build, registry and HTTP
  calls) are not part of the sources at hand. They are parameters of the model: a
  record of functions over a state of the outside world, so that two calls with the
  same arguments may answer differently. Each call is written to a trace together
  with its arguments and its answer, and so is every message the code logs.
\<close>

subsection \<open>Data\<close>

type_synonym buffer = string

datatype PiletPublishSource = FromLocal | FromRemote | FromNpm

text \<open>
  \<^verbatim>\<open>LogLevels\<close> is declared in \<^verbatim>\<open>../types\<close>; the code at hand uses the level
  \<^verbatim>\<open>info\<close> only, as the default, and hands the level on unchanged.
\<close>

datatype LogLevels = disabled | error | warning | info | verbose | debug

text \<open>The option \<^verbatim>\<open>source?: string | Array<string>\<close>.\<close>

datatype source = Str string | Arr "string list"

text \<open>The message codes that the file passes to \<^verbatim>\<open>log\<close> and \<^verbatim>\<open>fail\<close>.\<close>

datatype message =
    generalDebug_0003
  | generalInfo_0000
  | entryFileMissing_0077
  | missingPiletFeedUrl_0060
  | missingPiletTarball_0061
  | httpPostResponse_0067
  | failedToUploadPayment_0161
  | failedToUploadVersion_0162
  | failedToUploadSize_0163
  | failedToUpload_0062
  | failedToRead_0063
  | failedUploading_0064

text \<open>What \<^verbatim>\<open>postFile\<close> resolves to: \<^verbatim>\<open>result.success\<close>, \<^verbatim>\<open>result.status\<close>,
  \<^verbatim>\<open>result.response\<close>.\<close>

record PostResult =
  success :: bool
  status :: int
  response :: "string option"

text \<open>The arguments of \<^verbatim>\<open>postFile(url, mode, apiKey, content, fields, headers, ca,
  interactive)\<close>, in this order.\<close>

record PostRequest =
  req_url :: "string option"
  req_mode :: string
  req_apiKey :: "string option"
  req_content :: buffer
  req_fields :: "(string \<times> string) list"
  req_headers :: "(string \<times> string) list"
  req_ca :: "buffer option"
  req_interactive :: bool

text \<open>The object that \<^verbatim>\<open>getFiles\<close> passes to \<^verbatim>\<open>triggerBuildPilet\<close>, and the two
  parts of the answer that \<^verbatim>\<open>getFiles\<close> reads: \<^verbatim>\<open>root\<close> and \<^verbatim>\<open>piletPackage.name\<close>.
  Hooks are callbacks; the model keeps the names of those that are set.\<close>

record BuildRequest =
  b_args :: "(string \<times> string) list"
  b_bundlerName :: "string option"
  b_entryModule :: string
  b_fresh :: bool
  b_logLevel :: LogLevels
  b_originalSchemaVersion :: "string option"
  b_watch :: bool
  b_optimizeModules :: bool
  b_sourceMaps :: bool
  b_declaration :: bool
  b_contentHash :: bool
  b_minify :: bool
  b_hooks :: "string list"

record BuildResult =
  root :: string
  piletPackage_name :: string

text \<open>\<^verbatim>\<open>PublishPiletOptions\<close>: every field is optional (\<open>None\<close> is \<^verbatim>\<open>undefined\<close>).\<close>

record PublishPiletOptions =
  opt_source :: "source option"
  opt_url :: "string option"
  opt_apiKey :: "string option"
  opt_logLevel :: "LogLevels option"
  opt_fresh :: "bool option"
  opt_cert :: "string option"
  opt_schemaVersion :: "string option"
  opt_from :: "PiletPublishSource option"
  opt_fields :: "(string \<times> string) list option"
  opt_headers :: "(string \<times> string) list option"
  opt_interactive :: "bool option"
  opt_bundlerName :: "string option"
  opt_mode :: "string option"
  opt_args :: "(string \<times> string) list option"
  opt_hooks :: "string list option"

text \<open>The object \<^verbatim>\<open>config\<close> of \<^verbatim>\<open>../common\<close>, with the four properties that
  \<^verbatim>\<open>publishPilet\<close> reads.\<close>

record config =
  config_url :: "string option"
  config_apiKeys :: "(string \<Rightarrow> string option) option"
  config_apiKey :: "string option"
  config_cert :: "string option"

text \<open>The constants that \<^verbatim>\<open>publishPilet\<close> destructures from its options
  (lines 198 to 214), after the defaults have been filled in.\<close>

record settings =
  s_fresh :: bool
  s_source :: source
  s_url :: "string option"
  s_apiKey :: "string option"
  s_logLevel :: LogLevels
  s_from :: PiletPublishSource
  s_schemaVersion :: "string option"
  s_cert :: "string option"
  s_fields :: "(string \<times> string) list"
  s_headers :: "(string \<times> string) list"
  s_mode :: string
  s_interactive :: bool
  s_args :: "(string \<times> string) list"
  s_hooks :: "string list"
  s_bundlerName :: "string option"

text \<open>Arguments of a logged message or of a failure. Where the source builds the text
  of a message from a template, the model keeps the fixed words of the template as one
  \<open>Text\<close> (without the quotation marks around the inserted values) and the inserted
  values as further arguments.\<close>

datatype arg =
    Text string
  | Texts "string list"
  | Resp "string option"
  | Result PostResult

datatype failure =
    Fatal message "arg list"
  | TypeError string

text \<open>Everything a run does to the outside, in the order in which it does it. A
  call of a helper is one event, holding the arguments and the answer.\<close>

datatype event =
    SetLogLevel LogLevels
  | Progress string "string list"
  | Log message "arg list"
  | LogDone string
  | CheckExists "string option" bool
  | ReadBinary string string "buffer option"
  | MatchAnyPilet string "string list" "string list"
  | TriggerBuildPilet BuildRequest BuildResult
  | CreatePiletPackage string string string string
  | MatchFiles string string "string list"
  | DownloadFile string "buffer option" "string list"
  | FindNpmTarball string string
  | PostFile PostRequest PostResult

text \<open>The helpers of \<^verbatim>\<open>../common\<close> and of Node's \<^verbatim>\<open>path\<close> module that the file
  calls. \<open>'w\<close> is the state of the outside world (file system, registry, feed
  service); a helper reads it and may change it.\<close>

record 'w env =
  cwd :: string
  path_resolve :: "string \<Rightarrow> string \<Rightarrow> string"
  path_relative :: "string \<Rightarrow> string \<Rightarrow> string"
  path_dirname :: "string \<Rightarrow> string"
  path_basename :: "string \<Rightarrow> string"
  checkExists :: "string option \<Rightarrow> 'w \<Rightarrow> bool \<times> 'w"
  readBinary :: "string \<Rightarrow> string \<Rightarrow> 'w \<Rightarrow> buffer option \<times> 'w"
  matchAnyPilet :: "string \<Rightarrow> string list \<Rightarrow> 'w \<Rightarrow> string list \<times> 'w"
  triggerBuildPilet :: "BuildRequest \<Rightarrow> 'w \<Rightarrow> BuildResult \<times> 'w"
  createPiletPackage :: "string \<Rightarrow> string \<Rightarrow> string \<Rightarrow> 'w \<Rightarrow> string \<times> 'w"
  matchFiles :: "string \<Rightarrow> string \<Rightarrow> 'w \<Rightarrow> string list \<times> 'w"
  downloadFile :: "string \<Rightarrow> buffer option \<Rightarrow> 'w \<Rightarrow> string list \<times> 'w"
  findNpmTarball :: "string \<Rightarrow> 'w \<Rightarrow> string \<times> 'w"
  postFile :: "PostRequest \<Rightarrow> 'w \<Rightarrow> PostResult \<times> 'w"

subsection \<open>Effects\<close>

text \<open>
  An asynchronous function of the source is a function from the state of the world to
  its outcome (\<open>Inl\<close> a failure, \<open>Inr\<close> the value it resolves to), the events it
  caused and the new state of the world. \<^verbatim>\<open>await\<close> is \<open>io_bind\<close>.
\<close>

type_synonym ('w, 'a) io = "'w \<Rightarrow> (failure + 'a) \<times> event list \<times> 'w"

definition io_return :: "'a \<Rightarrow> ('w, 'a) io" where
  "io_return x = (\<lambda>w. (Inr x, [], w))"

definition io_bind :: "('w, 'a) io \<Rightarrow> ('a \<Rightarrow> ('w, 'b) io) \<Rightarrow> ('w, 'b) io" where
  "io_bind m f = (\<lambda>w.
     case m w of
       (Inl e, t, w') \<Rightarrow> (Inl e, t, w')
     | (Inr x, t, w') \<Rightarrow> (case f x w' of (r, t', w'') \<Rightarrow> (r, t @ t', w'')))"

definition io_then :: "('w, 'a) io \<Rightarrow> ('w, 'b) io \<Rightarrow> ('w, 'b) io" where
  "io_then m k = io_bind m (\<lambda>_. k)"

definition emit :: "event \<Rightarrow> ('w, unit) io" where
  "emit e = (\<lambda>w. (Inr (), [e], w))"

definition call :: "('w \<Rightarrow> 'a \<times> 'w) \<Rightarrow> ('a \<Rightarrow> event) \<Rightarrow> ('w, 'a) io" where
  "call f ev = (\<lambda>w. case f w of (x, w') \<Rightarrow> (Inr x, [ev x], w'))"

definition log :: "message \<Rightarrow> arg list \<Rightarrow> ('w, unit) io" where
  "log code as = emit (Log code as)"

definition progress :: "string \<Rightarrow> string list \<Rightarrow> ('w, unit) io" where
  "progress msg as = emit (Progress msg as)"

definition setLogLevel :: "LogLevels \<Rightarrow> ('w, unit) io" where
  "setLogLevel l = emit (SetLogLevel l)"

definition logDone :: "string \<Rightarrow> ('w, unit) io" where
  "logDone msg = emit (LogDone msg)"

text \<open>
  Modelled from the spec: \<^verbatim>\<open>fail\<close> of \<^verbatim>\<open>../common\<close> is not among the sources. The
  spec calls these failures fatal: they abort the run and "surface immediately to the
  caller with a specific error code". So \<open>fail\<close> ends the computation with the code
  and the arguments it was given; nothing after it runs.
\<close>

definition fail :: "message \<Rightarrow> arg list \<Rightarrow> ('w, 'a) io" where
  "fail code as = (\<lambda>w. (Inl (Fatal code as), [], w))"

text \<open>An exception thrown by the runtime itself.\<close>

definition throw :: "failure \<Rightarrow> ('w, 'a) io" where
  "throw e = (\<lambda>w. (Inl e, [], w))"

text \<open>
  \<^verbatim>\<open>Promise.all(xs.map(f))\<close> for a callback \<open>f\<close> that has no \<^verbatim>\<open>await\<close> of its own
  before it is done with its part: \<^verbatim>\<open>map\<close> runs \<open>f\<close> on the elements in list
  order, and the answers are delivered in list order. A call of a helper and its answer
  are one event. A callback with several \<^verbatim>\<open>await\<close>s is cut at them into stages
  (see \<open>getFiles\<close>), and \<open>io_all\<close> runs one stage.
\<close>

fun io_all :: "('a \<Rightarrow> ('w, 'b) io) \<Rightarrow> 'a list \<Rightarrow> ('w, 'b list) io" where
  "io_all f [] = io_return []"
| "io_all f (x # xs) =
     io_bind (f x) (\<lambda>y. io_bind (io_all f xs) (\<lambda>ys. io_return (y # ys)))"

text \<open>\<^verbatim>\<open>allFiles.reduce((result, files) => [...result, ...files], [])\<close>\<close>

definition flatten :: "'a list list \<Rightarrow> 'a list" where
  "flatten allFiles = foldl (\<lambda>result files. result @ files) [] allFiles"

text \<open>JavaScript's truthiness of a \<^verbatim>\<open>string | undefined\<close>: \<^verbatim>\<open>undefined\<close> and the
  empty string are falsy.\<close>

definition truthy :: "string option \<Rightarrow> bool" where
  "truthy s = (case s of None \<Rightarrow> False | Some v \<Rightarrow> v \<noteq> [])"

text \<open>\<^verbatim>\<open>a ?? b\<close>\<close>

definition nullish :: "'a option \<Rightarrow> 'a option \<Rightarrow> 'a option" where
  "nullish a b = (case a of None \<Rightarrow> b | Some v \<Rightarrow> Some v)"

text \<open>A destructuring default \<^verbatim>\<open>{ x = d } = options\<close>: \<open>d\<close> is taken when the
  property is \<^verbatim>\<open>undefined\<close>.\<close>

definition default_to :: "'a option \<Rightarrow> 'a \<Rightarrow> 'a" where
  "default_to a d = (case a of None \<Rightarrow> d | Some v \<Rightarrow> v)"

subsection \<open>getFiles\<close>

text \<open>
  The callback of the \<^verbatim>\<open>fresh\<close> branch (lines 143 to 170) has two \<^verbatim>\<open>await\<close>s.
  \<^verbatim>\<open>allEntries.map\<close> runs every callback up to its first \<^verbatim>\<open>await\<close>: all builds
  are triggered, in the order of the entries, before any callback goes on. The model
  cuts the callback at its \<^verbatim>\<open>await\<close>s into three stages and takes the helpers to
  answer in the order in which they were called: stage after stage, each in the order
  of the entries. In which order builds of different length really end is not modelled.
\<close>

text \<open>Lines 144 to 160: up to \<^verbatim>\<open>await triggerBuildPilet(...)\<close>.\<close>

definition startBuild ::
  "'w env \<Rightarrow> bool \<Rightarrow> string option \<Rightarrow> LogLevels \<Rightarrow> string option \<Rightarrow>
   (string \<times> string) list \<Rightarrow> string list \<Rightarrow> string \<Rightarrow> ('w, BuildResult) io" where
  "startBuild env fresh originalSchemaVersion logLevel bundlerName as hooks entryModule =
     io_then (progress ''Triggering pilet build ...'' [])
     (let request = \<lparr>b_args = as, b_bundlerName = bundlerName, b_entryModule = entryModule,
            b_fresh = fresh, b_logLevel = logLevel,
            b_originalSchemaVersion = originalSchemaVersion, b_watch = False,
            b_optimizeModules = False, b_sourceMaps = True, b_declaration = True,
            b_contentHash = True, b_minify = True, b_hooks = hooks\<rparr>
      in call (triggerBuildPilet env request) (TriggerBuildPilet request))"

text \<open>Lines 162 to 166: from the answer of the build up to
  \<^verbatim>\<open>await createPiletPackage(root, '.', '.')\<close>. It hands on the name and the file.\<close>

definition startPack :: "'w env \<Rightarrow> BuildResult \<Rightarrow> ('w, string \<times> string) io" where
  "startPack env built =
     (let name = piletPackage_name built in
      io_then (log generalDebug_0003 [Text ''Pilet built successfully!'', Text name])
     (io_then (progress ''Triggering pilet pack ...'' [])
     (io_bind (call (createPiletPackage env (root built) ''.'' ''.'')
                 (CreatePiletPackage (root built) ''.'' ''.''))
        (\<lambda>file. io_return (name, file)))))"

text \<open>Lines 167 to 169: the last message and \<^verbatim>\<open>return file\<close>.\<close>

definition finishPack :: "string \<times> string \<Rightarrow> ('w, string) io" where
  "finishPack packed =
     io_then (log generalDebug_0003 [Text ''Pilet packed successfully!'', Text (fst packed)])
       (io_return (snd packed))"

definition getFiles ::
  "'w env \<Rightarrow> string \<Rightarrow> string list \<Rightarrow> PiletPublishSource \<Rightarrow> bool \<Rightarrow> string option \<Rightarrow>
   LogLevels \<Rightarrow> string option \<Rightarrow> (string \<times> string) list \<Rightarrow> buffer option \<Rightarrow>
   string list \<Rightarrow> ('w, string list) io" where
  "getFiles env baseDir sources from fresh originalSchemaVersion logLevel bundlerName as ca hooks =
     (if fresh then
        io_then (log generalDebug_0003 [Text ''Detected --fresh. Trying to resolve the package.json.''])
       (io_bind (call (matchAnyPilet env baseDir sources) (MatchAnyPilet baseDir sources)) (\<lambda>allEntries.
        io_then (if length allEntries = 0 then fail entryFileMissing_0077 [] else io_return ())
       (io_bind (io_all (startBuild env fresh originalSchemaVersion logLevel bundlerName as hooks)
                   allEntries) (\<lambda>built.
        io_bind (io_all (startPack env) built) (\<lambda>packed.
        io_all finishPack packed)))))
      else
        io_then (log generalDebug_0003 [Text ''Did not find fresh flag. Trying to match from'',
                   Text (case from of FromLocal \<Rightarrow> ''local'' | FromRemote \<Rightarrow> ''remote''
                         | FromNpm \<Rightarrow> ''npm'')])
       (case from of
          FromLocal \<Rightarrow>
            io_then (log generalDebug_0003 [Text ''Matching files using'', Texts sources])
           (io_bind (io_all (\<lambda>s. call (matchFiles env baseDir s) (MatchFiles baseDir s)) sources)
              (\<lambda>allFiles. io_return (flatten allFiles)))
        | FromRemote \<Rightarrow>
            io_then (log generalDebug_0003 [Text ''Download file from'', Texts sources])
           (io_bind (io_all (\<lambda>s. call (downloadFile env s ca) (DownloadFile s ca)) sources)
              (\<lambda>allFiles. io_return (flatten allFiles)))
        | FromNpm \<Rightarrow>
            io_then (log generalDebug_0003 [Text ''View npm package'', Texts sources])
           (io_bind (io_all (\<lambda>s. call (findNpmTarball env s) (FindNpmTarball s)) sources)
              (\<lambda>allUrls.
            io_then (log generalDebug_0003 [Text ''Download file from'', Texts allUrls])
           (io_bind (io_all (\<lambda>url. call (downloadFile env url ca) (DownloadFile url ca)) allUrls)
              (\<lambda>allFiles. io_return (flatten allFiles)))))))"

subsection \<open>publishPilet\<close>

text \<open>Lines 198 to 214: the options with their defaults. \<^verbatim>\<open>publishPiletDefaults\<close>
  gives \<^verbatim>\<open>fresh: false\<close>, \<^verbatim>\<open>logLevel: LogLevels.info\<close>, \<^verbatim>\<open>mode: 'basic'\<close>,
  \<^verbatim>\<open>from: 'local'\<close>, \<^verbatim>\<open>fields: {}\<close>, \<^verbatim>\<open>headers: {}\<close>, \<^verbatim>\<open>interactive: false\<close>, and
  \<^verbatim>\<open>undefined\<close> for \<^verbatim>\<open>url\<close>, \<^verbatim>\<open>apiKey\<close>, \<^verbatim>\<open>cert\<close> and \<^verbatim>\<open>schemaVersion\<close>.\<close>

definition publishPiletDefaults :: PublishPiletOptions where
  "publishPiletDefaults =
     \<lparr>opt_source = None, opt_url = None, opt_apiKey = None, opt_logLevel = Some info,
      opt_fresh = Some False, opt_cert = None, opt_schemaVersion = None,
      opt_from = Some FromLocal, opt_fields = Some [], opt_headers = Some [],
      opt_interactive = Some False, opt_bundlerName = None, opt_mode = Some ''basic'',
      opt_args = None, opt_hooks = None\<rparr>"

text \<open>\<^verbatim>\<open>config.apiKeys?.[url]\<close>: a property read with the key \<^verbatim>\<open>url\<close>; the key
  \<^verbatim>\<open>undefined\<close> reads the property named "undefined".\<close>

definition apiKeys_at :: "config \<Rightarrow> string option \<Rightarrow> string option" where
  "apiKeys_at cfg url =
     (case config_apiKeys cfg of
        None \<Rightarrow> None
      | Some keys \<Rightarrow> keys (case url of None \<Rightarrow> ''undefined'' | Some u \<Rightarrow> u))"

definition destructure :: "config \<Rightarrow> PublishPiletOptions \<Rightarrow> settings" where
  "destructure cfg options =
     (let fresh = default_to (opt_fresh options) (default_to (opt_fresh publishPiletDefaults) False);
          source = default_to (opt_source options)
                     (if fresh then Str ''./src/index'' else Str ''*.tgz'');
          url = nullish (opt_url options) (nullish (config_url cfg) (opt_url publishPiletDefaults));
          apiKey = nullish (opt_apiKey options)
                     (nullish (apiKeys_at cfg url)
                        (nullish (config_apiKey cfg) (opt_apiKey publishPiletDefaults)))
      in \<lparr>s_fresh = fresh,
          s_source = source,
          s_url = url,
          s_apiKey = apiKey,
          s_logLevel = default_to (opt_logLevel options)
                       (default_to (opt_logLevel publishPiletDefaults) info),
          s_from = default_to (opt_from options)
                          (default_to (opt_from publishPiletDefaults) FromLocal),
          s_schemaVersion = nullish (opt_schemaVersion options)
                            (opt_schemaVersion publishPiletDefaults),
          s_cert = nullish (opt_cert options)
                   (nullish (config_cert cfg) (opt_cert publishPiletDefaults)),
          s_fields = default_to (opt_fields options)
                     (default_to (opt_fields publishPiletDefaults) []),
          s_headers = default_to (opt_headers options)
                      (default_to (opt_headers publishPiletDefaults) []),
          s_mode = default_to (opt_mode options)
                   (default_to (opt_mode publishPiletDefaults) ''basic''),
          s_interactive = default_to (opt_interactive options)
                          (default_to (opt_interactive publishPiletDefaults) False),
          s_args = default_to (opt_args options) [],
          s_hooks = default_to (opt_hooks options) [],
          s_bundlerName = opt_bundlerName options\<rparr>)"

text \<open>Line 234: \<^verbatim>\<open>Array.isArray(source) ? source : [source]\<close>\<close>

definition sources_of :: "source \<Rightarrow> string list" where
  "sources_of src = (case src of Arr xs \<Rightarrow> xs | Str s \<Rightarrow> [s])"

text \<open>Lines 223 to 231: the certificate. \<^verbatim>\<open>dirname(undefined)\<close> throws a
  \<^verbatim>\<open>TypeError\<close>; it is reached when \<^verbatim>\<open>checkExists\<close> accepts an unset path.\<close>

definition loadCertificate :: "'w env \<Rightarrow> string option \<Rightarrow> ('w, buffer option) io" where
  "loadCertificate env cert =
     io_then (log generalDebug_0003 [Text ''Checking if certificate exists.''])
    (io_bind (call (checkExists env cert) (CheckExists cert)) (\<lambda>found.
       if found then
         (case cert of
            None \<Rightarrow> throw (TypeError ''path'')
          | Some c \<Rightarrow>
              (let dir = path_dirname env c; file = path_basename env c in
               io_then (log generalDebug_0003 [Text ''Reading certificate file'', Text file, Text dir])
                 (call (readBinary env dir file) (ReadBinary dir file))))
       else io_return None))"

text \<open>Lines 246 to 275: the body of the loop, for one file. It returns
  \<^verbatim>\<open>successfulUploads\<close> as the iteration leaves it.\<close>

definition uploadFile ::
  "'w env \<Rightarrow> settings \<Rightarrow> buffer option \<Rightarrow> string \<Rightarrow> string list \<Rightarrow> string \<Rightarrow>
   ('w, string list) io" where
  "uploadFile env s ca fullBase successfulUploads file =
     io_then (log generalDebug_0003 [Text ''Reading the file for upload ...''])
    (let fileName = path_relative env fullBase file in
     io_bind (call (readBinary env fullBase fileName) (ReadBinary fullBase fileName)) (\<lambda>content.
     io_bind
       (case content of
          Some bytes \<Rightarrow>
            io_then (progress ''Publishing %s to %s ...'' [file, default_to (s_url s) ''undefined''])
           (let request = \<lparr>req_url = s_url s, req_mode = s_mode s, req_apiKey = s_apiKey s,
                  req_content = bytes, req_fields = s_fields s, req_headers = s_headers s,
                  req_ca = ca, req_interactive = s_interactive s\<rparr>
            in io_bind (call (postFile env request) (PostFile request)) (\<lambda>result.
               if success result then
                 io_then (if truthy (response result)
                          then log httpPostResponse_0067 [Result result] else io_return ())
                (io_then (progress ''Published successfully!'' [])
                (io_return (successfulUploads @ [file])))
               else if status result = 402 then
                 io_then (log failedToUploadPayment_0161 [Resp (response result)])
                   (io_return successfulUploads)
               else if status result = 409 then
                 io_then (log failedToUploadVersion_0162 [Resp (response result)])
                   (io_return successfulUploads)
               else if status result = 413 then
                 io_then (log failedToUploadSize_0163 [Resp (response result)])
                   (io_return successfulUploads)
               else
                 io_then (log failedToUpload_0062 [Text fileName])
                   (io_return successfulUploads)))
        | None \<Rightarrow>
            io_then (log failedToRead_0063 [Text fileName]) (io_return successfulUploads))
       (\<lambda>uploaded.
     io_then (log generalDebug_0003 [Text ''Finished uploading the file.''])
       (io_return uploaded))))"

text \<open>Lines 245 to 276: \<^verbatim>\<open>for (const file of files)\<close>.\<close>

fun uploadFiles ::
  "'w env \<Rightarrow> settings \<Rightarrow> buffer option \<Rightarrow> string \<Rightarrow> string list \<Rightarrow> string list \<Rightarrow>
   ('w, string list) io" where
  "uploadFiles env s ca fullBase successfulUploads [] = io_return successfulUploads"
| "uploadFiles env s ca fullBase successfulUploads (file # files) =
     io_bind (uploadFile env s ca fullBase successfulUploads file)
       (\<lambda>uploaded. uploadFiles env s ca fullBase uploaded files)"

text \<open>Lines 236 to 282: what \<^verbatim>\<open>publishPilet\<close> does with the list that
  \<^verbatim>\<open>getFiles\<close> has returned.\<close>

definition publishFiles ::
  "'w env \<Rightarrow> settings \<Rightarrow> buffer option \<Rightarrow> string \<Rightarrow> string list \<Rightarrow> string list \<Rightarrow>
   ('w, unit) io" where
  "publishFiles env s ca fullBase sources files =
     io_then (log generalDebug_0003 [Text ''Received available tgz files.''])
    (io_then (if length files = 0 then fail missingPiletTarball_0061 [Texts sources]
              else io_return ())
    (io_then (log generalInfo_0000 [Text ''Using feed service'', Resp (s_url s)])
    (io_bind (uploadFiles env s ca fullBase [] files) (\<lambda>successfulUploads.
       if length files = length successfulUploads
       then logDone ''Pilet(s) published successfully!''
       else fail failedUploading_0064 []))))"

text \<open>The whole function. \<^verbatim>\<open>baseDir\<close> defaults to \<^verbatim>\<open>process.cwd()\<close>.\<close>

definition publishPilet ::
  "'w env \<Rightarrow> config \<Rightarrow> string option \<Rightarrow> PublishPiletOptions \<Rightarrow> ('w, unit) io" where
  "publishPilet env cfg baseDir options =
     (let s = destructure cfg options;
          fullBase = path_resolve env (cwd env) (default_to baseDir (cwd env))
      in io_then (setLogLevel (s_logLevel s))
        (io_then (progress ''Reading configuration ...'' [])
        (io_then (if \<not> truthy (s_url s) then fail missingPiletFeedUrl_0060 [] else io_return ())
        (io_bind (loadCertificate env (s_cert s)) (\<lambda>ca.
         io_then (log generalDebug_0003 [Text ''Getting the tgz files ...''])
        (let sources = sources_of (s_source s) in
         io_bind (getFiles env fullBase sources (s_from s) (s_fresh s) (s_schemaVersion s)
                    (s_logLevel s) (s_bundlerName s) (s_args s) ca (s_hooks s))
           (publishFiles env s ca fullBase sources)))))))"

subsection \<open>Reading a run\<close>

text \<open>The three parts of what a run returns.\<close>

definition answer :: "(failure + 'a) \<times> event list \<times> 'w \<Rightarrow> failure + 'a" where
  "answer r = fst r"

definition trace :: "(failure + 'a) \<times> event list \<times> 'w \<Rightarrow> event list" where
  "trace r = fst (snd r)"

definition world :: "(failure + 'a) \<times> event list \<times> 'w \<Rightarrow> 'w" where
  "world r = snd (snd r)"

text \<open>A run whose trace follows the events \<open>pre\<close>, which happened before it.\<close>

definition after :: "event list \<Rightarrow> (failure + 'a) \<times> event list \<times> 'w \<Rightarrow>
    (failure + 'a) \<times> event list \<times> 'w" where
  "after pre r = (answer r, pre @ trace r, world r)"

text \<open>\<open>collect f t\<close> gathers what \<open>f\<close> picks from each event of the trace \<open>t\<close>,
  in the order of the trace.\<close>

definition collect :: "(event \<Rightarrow> 'a list) \<Rightarrow> event list \<Rightarrow> 'a list" where
  "collect f t = concat (map f t)"

text \<open>The calls of \<^verbatim>\<open>postFile\<close>: request and answer.\<close>

fun post_of :: "event \<Rightarrow> (PostRequest \<times> PostResult) list" where
  "post_of (PostFile request result) = [(request, result)]"
| "post_of _ = []"

definition uploads :: "event list \<Rightarrow> (PostRequest \<times> PostResult) list" where
  "uploads t = collect post_of t"

text \<open>The calls of \<^verbatim>\<open>readBinary\<close>: the file name, and the content when the read
  succeeded.\<close>

fun read_of :: "event \<Rightarrow> (string \<times> buffer option) list" where
  "read_of (ReadBinary dir file content) = [(file, content)]"
| "read_of _ = []"

fun content_of :: "event \<Rightarrow> buffer list" where
  "content_of (ReadBinary dir file (Some bytes)) = [bytes]"
| "content_of _ = []"

fun unread_of :: "event \<Rightarrow> string list" where
  "unread_of (ReadBinary dir file None) = [file]"
| "unread_of _ = []"

text \<open>The files reported with \<^verbatim>\<open>failedToRead_0063\<close>.\<close>

fun failedToRead_of :: "event \<Rightarrow> string list" where
  "failedToRead_of (Log failedToRead_0063 [Text fileName]) = [fileName]"
| "failedToRead_of _ = []"

text \<open>The calls of \<^verbatim>\<open>matchFiles\<close> (pattern and matched files), of
  \<^verbatim>\<open>findNpmTarball\<close> (specifier and URL), of \<^verbatim>\<open>downloadFile\<close> (URL, certificate and
  files) and of \<^verbatim>\<open>triggerBuildPilet\<close>.\<close>

fun match_of :: "event \<Rightarrow> (string \<times> string list) list" where
  "match_of (MatchFiles baseDir pattern files) = [(pattern, files)]"
| "match_of _ = []"

fun lookup_of :: "event \<Rightarrow> (string \<times> string) list" where
  "lookup_of (FindNpmTarball specifier tarball) = [(specifier, tarball)]"
| "lookup_of _ = []"

fun download_of :: "event \<Rightarrow> (string \<times> buffer option \<times> string list) list" where
  "download_of (DownloadFile tarball ca files) = [(tarball, ca, files)]"
| "download_of _ = []"

fun build_of :: "event \<Rightarrow> BuildRequest list" where
  "build_of (TriggerBuildPilet request built) = [request]"
| "build_of _ = []"

fun entries_of :: "event \<Rightarrow> string list list" where
  "entries_of (MatchAnyPilet baseDir sources entries) = [sources]"
| "entries_of _ = []"

fun pack_of :: "event \<Rightarrow> string list" where
  "pack_of (CreatePiletPackage root' source' target tarball) = [root']"
| "pack_of _ = []"

text \<open>
  The sources of a run in words: without a \<open>source\<close> option the one source
  \<open>./src/index\<close> when the option \<open>fresh\<close> is true and the one pattern \<open>*.tgz\<close>
  otherwise; for a string that string alone; for an array its elements.
\<close>

definition given_sources :: "PublishPiletOptions \<Rightarrow> string list" where
  "given_sources options =
     (case opt_source options of
        None \<Rightarrow> (if opt_fresh options = Some True then [''./src/index''] else [''*.tgz''])
      | Some (Str src) \<Rightarrow> [src]
      | Some (Arr srcs) \<Rightarrow> srcs)"

text \<open>What the loop reports for one file: the message it logs, lines 254 to 273.\<close>

datatype outcome =
    Published
  | PaymentRequired
  | VersionConflict
  | TooLarge
  | UploadFailed
  | Unreadable

fun outcome_of :: "event \<Rightarrow> outcome list" where
  "outcome_of (Progress msg as) = (if msg = ''Published successfully!'' then [Published] else [])"
| "outcome_of (Log failedToUploadPayment_0161 as) = [PaymentRequired]"
| "outcome_of (Log failedToUploadVersion_0162 as) = [VersionConflict]"
| "outcome_of (Log failedToUploadSize_0163 as) = [TooLarge]"
| "outcome_of (Log failedToUpload_0062 as) = [UploadFailed]"
| "outcome_of (Log failedToRead_0063 as) = [Unreadable]"
| "outcome_of _ = []"

definition recorded_outcomes :: "event list \<Rightarrow> outcome list" where
  "recorded_outcomes t = collect outcome_of t"

definition succeeded :: "outcome \<Rightarrow> bool" where
  "succeeded outc = (outc = Published)"

text \<open>The table of the spec, section 4.5, for a response with an HTTP status.\<close>

definition is_2xx :: "int \<Rightarrow> bool" where
  "is_2xx code = (200 \<le> code \<and> code < 300)"

definition classification :: "int \<Rightarrow> outcome" where
  "classification code =
     (if is_2xx code then Published
      else if code = 402 then PaymentRequired
      else if code = 409 then VersionConflict
      else if code = 413 then TooLarge
      else UploadFailed)"

text \<open>
  Modelled from the spec: \<^verbatim>\<open>postFile\<close> of \<^verbatim>\<open>../common\<close> is not among the sources,
  and \<^verbatim>\<open>publishPilet\<close> takes the flag \<^verbatim>\<open>result.success\<close> from it. The spec's table
  calls a response a success exactly when its status is 2xx; a result of
  \<^verbatim>\<open>postFile\<close> that agrees with the table has the flag set exactly then.
\<close>

definition flag_follows_status :: "PostResult \<Rightarrow> bool" where
  "flag_follows_status result = (success result = is_2xx (status result))"

text \<open>
  The local resolution in the words of the spec: each pattern's matches, pattern after
  pattern in the order of the sources; each match is made in the world that the
  match before it has left.
\<close>

fun match_each :: "'w env \<Rightarrow> string \<Rightarrow> string list \<Rightarrow> 'w \<Rightarrow> string list list" where
  "match_each env baseDir [] w = []"
| "match_each env baseDir (pattern # patterns) w =
     fst (matchFiles env baseDir pattern w) #
     match_each env baseDir patterns (snd (matchFiles env baseDir pattern w))"

text \<open>All registry lookups of a trace lie before its first download.\<close>

definition lookups_before_downloads :: "event list \<Rightarrow> bool" where
  "lookups_before_downloads t =
     (collect lookup_of (dropWhile (\<lambda>e. download_of e = []) t) = [])"

subsection \<open>A small outside world\<close>

text \<open>
  An environment to run the model on: \<open>globs\<close> says which files a pattern matches,
  \<open>disk\<close> what a file holds, \<open>present\<close> which paths exist, \<open>entries\<close> which entry
  modules there are. The state of the world is the list of answers that the feed
  service will give, one per upload; when the list is used up the feed answers 500.
\<close>

definition feed_env ::
  "(string \<Rightarrow> string list) \<Rightarrow> (string \<Rightarrow> buffer option) \<Rightarrow> (string option \<Rightarrow> bool) \<Rightarrow>
   string list \<Rightarrow> (PostResult list) env" where
  "feed_env globs disk present entries =
     \<lparr>cwd = ''/work'',
      path_resolve = (\<lambda>from to. to),
      path_relative = (\<lambda>from to. to),
      path_dirname = (\<lambda>p. ''.''),
      path_basename = (\<lambda>p. p),
      checkExists = (\<lambda>p w. (present p, w)),
      readBinary = (\<lambda>dir file w. (disk file, w)),
      matchAnyPilet = (\<lambda>baseDir sources w. (entries, w)),
      triggerBuildPilet = (\<lambda>request w.
        (\<lparr>root = b_entryModule request, piletPackage_name = ''pilet''\<rparr>, w)),
      createPiletPackage = (\<lambda>root' source' target w. (root' @ ''.tgz'', w)),
      matchFiles = (\<lambda>baseDir pattern w. (globs pattern, w)),
      downloadFile = (\<lambda>tarball ca w. ([tarball], w)),
      findNpmTarball = (\<lambda>specifier w. (''registry/'' @ specifier, w)),
      postFile = (\<lambda>request w.
        case w of
          [] \<Rightarrow> (\<lparr>success = False, status = 500, response = None\<rparr>, [])
        | result # rest \<Rightarrow> (result, rest))\<rparr>"

definition no_options :: PublishPiletOptions where
  "no_options =
     \<lparr>opt_source = None, opt_url = None, opt_apiKey = None, opt_logLevel = None,
      opt_fresh = None, opt_cert = None, opt_schemaVersion = None, opt_from = None,
      opt_fields = None, opt_headers = None, opt_interactive = None,
      opt_bundlerName = None, opt_mode = None, opt_args = None, opt_hooks = None\<rparr>"

definition no_config :: config where
  "no_config = \<lparr>config_url = None, config_apiKeys = None, config_apiKey = None,
     config_cert = None\<rparr>"

definition two_files :: "string \<Rightarrow> string list" where
  "two_files pattern = (if pattern = ''*.tgz'' then [''a.tgz'', ''b.tgz''] else [])"

definition on_disk :: "string \<Rightarrow> buffer option" where
  "on_disk file = (if file = ''a.tgz'' then Some ''AAAA''
                   else if file = ''b.tgz'' then Some ''BBBB'' else None)"

definition no_files :: "string \<Rightarrow> string list" where
  "no_files pattern = []"

definition nothing_present :: "string option \<Rightarrow> bool" where
  "nothing_present p = False"

definition demo_env :: "(PostResult list) env" where
  "demo_env = feed_env two_files on_disk nothing_present []"

definition empty_env :: "(PostResult list) env" where
  "empty_env = feed_env no_files on_disk nothing_present []"

definition entries_env :: "(PostResult list) env" where
  "entries_env = feed_env two_files on_disk nothing_present [''one'', ''two'']"

definition demo_options :: PublishPiletOptions where
  "demo_options = no_options\<lparr>opt_url := Some ''https://feed''\<rparr>"

definition cert_options :: PublishPiletOptions where
  "cert_options = demo_options\<lparr>opt_cert := Some ''missing.pem''\<rparr>"

definition demo_settings :: settings where
  "demo_settings = destructure no_config demo_options"

definition http :: "int \<Rightarrow> PostResult" where
  "http code = \<lparr>success = is_2xx code, status = code, response = None\<rparr>"

section \<open>Properties\<close>

subsection \<open>Running a computation\<close>

lemma answer_bind:
  "answer (io_bind m f w) =
     (case answer (m w) of Inl e \<Rightarrow> Inl e | Inr x \<Rightarrow> answer (f x (world (m w))))"
  by (simp add: io_bind_def answer_def world_def split_beta split: sum.splits)

lemma trace_bind:
  "trace (io_bind m f w) =
     (case answer (m w) of
        Inl e \<Rightarrow> trace (m w)
      | Inr x \<Rightarrow> trace (m w) @ trace (f x (world (m w))))"
  by (simp add: io_bind_def answer_def world_def trace_def split_beta split: sum.splits)

lemma world_bind:
  "world (io_bind m f w) =
     (case answer (m w) of Inl e \<Rightarrow> world (m w) | Inr x \<Rightarrow> world (f x (world (m w))))"
  by (simp add: io_bind_def answer_def world_def split_beta split: sum.splits)

lemma run_emit:
  "answer (emit e w) = Inr ()" "trace (emit e w) = [e]" "world (emit e w) = w"
  by (simp_all add: emit_def answer_def trace_def world_def)

lemma run_return:
  "answer (io_return x w) = Inr x" "trace (io_return x w) = []" "world (io_return x w) = w"
  by (simp_all add: io_return_def answer_def trace_def world_def)

lemma run_fail:
  "answer (fail c as w) = Inl (Fatal c as)" "trace (fail c as w) = []" "world (fail c as w) = w"
  by (simp_all add: fail_def answer_def trace_def world_def)

lemma run_throw:
  "answer (throw e w) = Inl e" "trace (throw e w) = []" "world (throw e w) = w"
  by (simp_all add: throw_def answer_def trace_def world_def)

lemma run_call:
  "answer (call f ev w) = Inr (fst (f w))" "trace (call f ev w) = [ev (fst (f w))]"
  "world (call f ev w) = snd (f w)"
  by (simp_all add: call_def answer_def trace_def world_def split_beta)

lemma run_eq: "r = (answer r, trace r, world r)"
  by (simp add: answer_def trace_def world_def)

lemmas io_defs = io_bind_def io_then_def io_return_def emit_def call_def log_def progress_def
  setLogLevel_def logDone_def fail_def throw_def

lemmas run_simps = answer_bind trace_bind world_bind run_emit run_return run_fail run_throw run_call
  io_then_def log_def progress_def setLogLevel_def logDone_def

lemmas model_defs = publishPilet_def publishFiles_def uploadFile_def loadCertificate_def
  getFiles_def startBuild_def startPack_def finishPack_def destructure_def publishPiletDefaults_def sources_of_def
  apiKeys_at_def default_to_def nullish_def truthy_def flatten_def

lemmas demo_defs = feed_env_def no_options_def no_config_def two_files_def on_disk_def
  http_def is_2xx_def demo_env_def demo_options_def demo_settings_def no_files_def
  nothing_present_def empty_env_def cert_options_def entries_env_def

lemma collect_append: "collect f (a @ b) = collect f a @ collect f b"
  by (simp add: collect_def)

lemma collect_Nil: "collect f [] = []"
  by (simp add: collect_def)

lemma collect_Cons: "collect f (e # t) = f e @ collect f t"
  by (simp add: collect_def)

lemmas collect_simps = collect_append collect_Nil collect_Cons

subsection \<open>The feed URL\<close>

lemma s_url_destructure:
  "s_url (destructure cfg options) = nullish (opt_url options) (config_url cfg)"
  by (simp add: destructure_def Let_def nullish_def publishPiletDefaults_def split: option.splits)

text \<open>
  C4. When the feed URL is absent or empty, \<open>publishPilet\<close> fails with
  \<open>missingPiletFeedUrl_0060\<close>. The run has set the log level and reported progress and
  nothing else: no certificate check or read, no resolution, no file read, no upload;
  the outside world is as it was.
\<close>

theorem publishPilet_missing_url:
  assumes "s_url (destructure cfg options) = None \<or> s_url (destructure cfg options) = Some []"
  shows "publishPilet env cfg baseDir options w =
           (Inl (Fatal missingPiletFeedUrl_0060 []),
            [SetLogLevel (s_logLevel (destructure cfg options)),
             Progress ''Reading configuration ...'' []],
            w)"
proof -
  from assms have "\<not> truthy (s_url (destructure cfg options))"
    by (auto simp add: truthy_def)
  then show ?thesis
    by (simp add: publishPilet_def Let_def io_defs)
qed

theorem publishPilet_missing_url_witness:
  "s_url (destructure no_config (no_options\<lparr>opt_url := Some []\<rparr>)) = Some [] \<and>
   publishPilet demo_env no_config None
     (no_options\<lparr>opt_url := Some []\<rparr>) [http 200] =
     (Inl (Fatal missingPiletFeedUrl_0060 []),
      [SetLogLevel info, Progress ''Reading configuration ...'' []],
      [http 200])"
proof -
  have u: "s_url (destructure no_config (no_options\<lparr>opt_url := Some []\<rparr>)) = Some []"
    by (simp add: s_url_destructure nullish_def no_options_def)
  have l: "s_logLevel (destructure no_config (no_options\<lparr>opt_url := Some []\<rparr>)) = info"
    by (simp add: model_defs demo_defs Let_def)
  from u have "s_url (destructure no_config (no_options\<lparr>opt_url := Some []\<rparr>)) = None \<or>
      s_url (destructure no_config (no_options\<lparr>opt_url := Some []\<rparr>)) = Some []" ..
  from publishPilet_missing_url [OF this] u l show ?thesis
    by simp
qed

subsection \<open>Fresh builds without an entry module\<close>

text \<open>
  C6. With \<open>fresh\<close> set, when \<open>matchAnyPilet\<close> finds no entry module, \<open>getFiles\<close>
  fails with \<open>entryFileMissing_0077\<close>, whatever the other arguments are. Its trace is
  the debug message and the call of \<open>matchAnyPilet\<close>: no build was triggered.
\<close>

theorem getFiles_fresh_no_entry:
  assumes "fst (matchAnyPilet env baseDir sources w) = []"
  shows "getFiles env baseDir sources from True originalSchemaVersion logLevel bundlerName
           as ca hooks w =
           (Inl (Fatal entryFileMissing_0077 []),
            [Log generalDebug_0003 [Text ''Detected --fresh. Trying to resolve the package.json.''],
             MatchAnyPilet baseDir sources []],
            snd (matchAnyPilet env baseDir sources w)) \<and>
         collect build_of (trace (getFiles env baseDir sources from True originalSchemaVersion
           logLevel bundlerName as ca hooks w)) = []"
  using assms
  by (simp add: getFiles_def io_defs split_beta trace_def collect_simps)

theorem getFiles_fresh_no_entry_witness:
  "getFiles demo_env ''/work'' [''./src/index'']
     FromNpm True None info None [] None [] [http 200] =
     (Inl (Fatal entryFileMissing_0077 []),
      [Log generalDebug_0003 [Text ''Detected --fresh. Trying to resolve the package.json.''],
       MatchAnyPilet ''/work'' [''./src/index''] []],
      [http 200])"
proof -
  have "fst (matchAnyPilet demo_env ''/work''
      [''./src/index''] [http 200]) = []"
    by (simp add: demo_env_def feed_env_def)
  from getFiles_fresh_no_entry [OF this] show ?thesis
    by (simp add: demo_env_def feed_env_def)
qed

subsection \<open>The source option\<close>

lemma uploadFile_source: "uploadFile env (s\<lparr>s_source := v\<rparr>) = uploadFile env s"
  by (rule ext)+ (simp add: uploadFile_def Let_def cong: option.case_cong)

lemma uploadFiles_source:
  "uploadFiles env (s\<lparr>s_source := v\<rparr>) ca fullBase su files =
   uploadFiles env s ca fullBase su files"
  by (induction files arbitrary: su) (simp_all add: uploadFile_source)

lemma publishFiles_source: "publishFiles env (s\<lparr>s_source := v\<rparr>) = publishFiles env s"
  by (rule ext)+ (simp add: publishFiles_def uploadFiles_source)

lemma destructure_source:
  "destructure cfg (options\<lparr>opt_source := Some v\<rparr>) = (destructure cfg options)\<lparr>s_source := v\<rparr>"
  by (simp add: destructure_def Let_def default_to_def)

lemma sources_of_given:
  "sources_of (s_source (destructure cfg options)) = given_sources options"
  by (simp add: destructure_def Let_def default_to_def sources_of_def given_sources_def
      publishPiletDefaults_def split: option.splits source.splits)

text \<open>How a run of \<open>publishPilet\<close> is put together, with the sources written out.\<close>

lemma publishPilet_run:
  "publishPilet env cfg baseDir options w =
     (let s = destructure cfg options;
          fullBase = path_resolve env (cwd env) (default_to baseDir (cwd env));
          certificate = loadCertificate env (s_cert s) w;
          before = [SetLogLevel (s_logLevel s), Progress ''Reading configuration ...'' []]
      in if truthy (s_url s) then
           (case answer certificate of
              Inl e \<Rightarrow> (Inl e, before @ trace certificate, world certificate)
            | Inr ca \<Rightarrow>
                after
                  (before @ trace certificate @
                   [Log generalDebug_0003 [Text ''Getting the tgz files ...'']])
                  (io_bind
                     (getFiles env fullBase (given_sources options) (s_from s) (s_fresh s)
                        (s_schemaVersion s) (s_logLevel s) (s_bundlerName s) (s_args s) ca
                        (s_hooks s))
                     (publishFiles env s ca fullBase (given_sources options))
                     (world certificate)))
         else (Inl (Fatal missingPiletFeedUrl_0060 []), before, w))"
proof -
  have "publishPilet env cfg baseDir options w =
      (answer (publishPilet env cfg baseDir options w),
       trace (publishPilet env cfg baseDir options w),
       world (publishPilet env cfg baseDir options w))"
    by (rule run_eq)
  also have "\<dots> =
     (let s = destructure cfg options;
          fullBase = path_resolve env (cwd env) (default_to baseDir (cwd env));
          certificate = loadCertificate env (s_cert s) w;
          before = [SetLogLevel (s_logLevel s), Progress ''Reading configuration ...'' []]
      in if truthy (s_url s) then
           (case answer certificate of
              Inl e \<Rightarrow> (Inl e, before @ trace certificate, world certificate)
            | Inr ca \<Rightarrow>
                after
                  (before @ trace certificate @
                   [Log generalDebug_0003 [Text ''Getting the tgz files ...'']])
                  (io_bind
                     (getFiles env fullBase (given_sources options) (s_from s) (s_fresh s)
                        (s_schemaVersion s) (s_logLevel s) (s_bundlerName s) (s_args s) ca
                        (s_hooks s))
                     (publishFiles env s ca fullBase (given_sources options))
                     (world certificate)))
         else (Inl (Fatal missingPiletFeedUrl_0060 []), before, w))"
    by (simp add: publishPilet_def Let_def run_simps after_def sources_of_given
        split: sum.splits)
  finally show ?thesis .
qed

text \<open>
  C10. Without a \<open>source\<close> option the source is \<open>./src/index\<close> when \<open>fresh\<close> is set
  and \<open>*.tgz\<close> otherwise, and \<open>fresh\<close> is set only by the option \<open>fresh: true\<close>. A
  source given as one string stands for the list of that string alone, an array for its
  elements, so that a string and the array holding that string give the same sources,
  and \<open>publishPilet\<close> does the same on both, in every world. These sources, and no
  others, are what \<open>publishPilet\<close> hands to \<open>getFiles\<close> and names when nothing was
  found: a run with the feed URL set and the certificate step passed is the run of
  \<open>getFiles\<close> on them, followed by the publishing of what \<open>getFiles\<close> returned.
\<close>

theorem publishPilet_source_default:
  "s_source (destructure cfg (options\<lparr>opt_source := None\<rparr>)) =
     (if s_fresh (destructure cfg options) then Str ''./src/index'' else Str ''*.tgz'') \<and>
   s_fresh (destructure cfg options) = (opt_fresh options = Some True) \<and>
   sources_of (Str src) = sources_of (Arr [src]) \<and>
   publishPilet env cfg baseDir (options\<lparr>opt_source := Some (Str src)\<rparr>) =
   publishPilet env cfg baseDir (options\<lparr>opt_source := Some (Arr [src])\<rparr>) \<and>
   sources_of (Str src) = [src] \<and>
   sources_of (Arr srcs) = srcs \<and>
   sources_of (s_source (destructure cfg options)) = given_sources options \<and>
   given_sources (options\<lparr>opt_source := None\<rparr>) =
     (if opt_fresh options = Some True then [''./src/index''] else [''*.tgz'']) \<and>
   given_sources (options\<lparr>opt_source := Some (Str src)\<rparr>) = [src] \<and>
   given_sources (options\<lparr>opt_source := Some (Arr srcs)\<rparr>) = srcs \<and>
   publishPilet env cfg baseDir options w =
     (let s = destructure cfg options;
          fullBase = path_resolve env (cwd env) (default_to baseDir (cwd env));
          certificate = loadCertificate env (s_cert s) w;
          before = [SetLogLevel (s_logLevel s), Progress ''Reading configuration ...'' []]
      in if truthy (s_url s) then
           (case answer certificate of
              Inl e \<Rightarrow> (Inl e, before @ trace certificate, world certificate)
            | Inr ca \<Rightarrow>
                after
                  (before @ trace certificate @
                   [Log generalDebug_0003 [Text ''Getting the tgz files ...'']])
                  (io_bind
                     (getFiles env fullBase (given_sources options) (s_from s) (s_fresh s)
                        (s_schemaVersion s) (s_logLevel s) (s_bundlerName s) (s_args s) ca
                        (s_hooks s))
                     (publishFiles env s ca fullBase (given_sources options))
                     (world certificate)))
         else (Inl (Fatal missingPiletFeedUrl_0060 []), before, w))"
proof -
  have a: "s_source (destructure cfg (options\<lparr>opt_source := None\<rparr>)) =
     (if s_fresh (destructure cfg options) then Str ''./src/index'' else Str ''*.tgz'')"
    by (simp add: destructure_def Let_def default_to_def)
  have b: "s_fresh (destructure cfg options) = (opt_fresh options = Some True)"
    by (simp add: destructure_def Let_def default_to_def publishPiletDefaults_def
        split: option.splits)
  have c: "sources_of (Str src) = sources_of (Arr [src])"
    by (simp add: sources_of_def)
  have d: "publishPilet env cfg baseDir (options\<lparr>opt_source := Some (Str src)\<rparr>) =
     publishPilet env cfg baseDir (options\<lparr>opt_source := Some (Arr [src])\<rparr>)"
    by (simp add: publishPilet_def Let_def destructure_source publishFiles_source c)
  have e: "sources_of (Str src) = [src]" "sources_of (Arr srcs) = srcs"
    by (simp_all add: sources_of_def)
  have f: "given_sources (options\<lparr>opt_source := None\<rparr>) =
     (if opt_fresh options = Some True then [''./src/index''] else [''*.tgz''])"
    "given_sources (options\<lparr>opt_source := Some (Str src)\<rparr>) = [src]"
    "given_sources (options\<lparr>opt_source := Some (Arr srcs)\<rparr>) = srcs"
    by (simp_all add: given_sources_def)
  note g = sources_of_given [of cfg options]
  note h = publishPilet_run [of env cfg baseDir options w]
  show ?thesis
    by (intro conjI a b c d e f g h)
qed

theorem publishPilet_source_default_witness:
  "s_source (destructure no_config (no_options\<lparr>opt_fresh := Some True, opt_source := None\<rparr>)) =
     Str ''./src/index'' \<and>
   s_source (destructure no_config (no_options\<lparr>opt_source := None\<rparr>)) = Str ''*.tgz'' \<and>
   publishPilet demo_env no_config None (demo_options\<lparr>opt_source := Some (Str ''a.tgz'')\<rparr>) =
   publishPilet demo_env no_config None (demo_options\<lparr>opt_source := Some (Arr [''a.tgz''])\<rparr>) \<and>
   collect entries_of (trace (publishPilet demo_env no_config None
     (demo_options\<lparr>opt_fresh := Some True\<rparr>) [])) = [[''./src/index'']] \<and>
   collect match_of (trace (publishPilet demo_env no_config None demo_options [])) =
     [(''*.tgz'', [''a.tgz'', ''b.tgz''])] \<and>
   collect match_of (trace (publishPilet demo_env no_config None
     (demo_options\<lparr>opt_source := Some (Str ''x.tgz'')\<rparr>) [])) = [(''x.tgz'', [])] \<and>
   answer (publishPilet demo_env no_config None
     (demo_options\<lparr>opt_source := Some (Str ''x.tgz'')\<rparr>) []) =
     Inl (Fatal missingPiletTarball_0061 [Texts [''x.tgz'']]) \<and>
   collect match_of (trace (publishPilet demo_env no_config None
     (demo_options\<lparr>opt_source := Some (Arr [''x.tgz'', ''*.tgz''])\<rparr>) [])) =
     [(''x.tgz'', []), (''*.tgz'', [''a.tgz'', ''b.tgz''])]"
proof -
  note fresh_set = publishPilet_source_default
    [of no_config "no_options\<lparr>opt_fresh := Some True\<rparr>" "[]" demo_env None "[]" "[]"]
  note fresh_unset = publishPilet_source_default
    [of no_config no_options "[]" demo_env None "[]" "[]"]
  note scalar = publishPilet_source_default
    [of no_config demo_options "''a.tgz''" demo_env None "[]" "[]"]
  have 1: "s_source (destructure no_config
      (no_options\<lparr>opt_fresh := Some True, opt_source := None\<rparr>)) = Str ''./src/index''"
    using fresh_set by (simp add: no_options_def)
  have 2: "s_source (destructure no_config (no_options\<lparr>opt_source := None\<rparr>)) = Str ''*.tgz''"
    using fresh_unset by (simp add: no_options_def)
  have 3: "publishPilet demo_env no_config None
      (demo_options\<lparr>opt_source := Some (Str ''a.tgz'')\<rparr>) =
    publishPilet demo_env no_config None (demo_options\<lparr>opt_source := Some (Arr [''a.tgz''])\<rparr>)"
    using scalar by simp
  have 4: "collect entries_of (trace (publishPilet demo_env no_config None
     (demo_options\<lparr>opt_fresh := Some True\<rparr>) [])) = [[''./src/index'']]"
    by (simp add: model_defs demo_defs run_simps Let_def collect_simps)
  have 5: "collect match_of (trace (publishPilet demo_env no_config None demo_options [])) =
     [(''*.tgz'', [''a.tgz'', ''b.tgz''])]"
    by (simp add: model_defs demo_defs run_simps Let_def collect_simps)
  have 6: "collect match_of (trace (publishPilet demo_env no_config None
     (demo_options\<lparr>opt_source := Some (Str ''x.tgz'')\<rparr>) [])) = [(''x.tgz'', [])]"
    by (simp add: model_defs demo_defs run_simps Let_def collect_simps)
  have 7: "answer (publishPilet demo_env no_config None
     (demo_options\<lparr>opt_source := Some (Str ''x.tgz'')\<rparr>) []) =
     Inl (Fatal missingPiletTarball_0061 [Texts [''x.tgz'']])"
    by (simp add: model_defs demo_defs run_simps Let_def)
  have 8: "collect match_of (trace (publishPilet demo_env no_config None
     (demo_options\<lparr>opt_source := Some (Arr [''x.tgz'', ''*.tgz''])\<rparr>) [])) =
     [(''x.tgz'', []), (''*.tgz'', [''a.tgz'', ''b.tgz''])]"
    by (simp add: model_defs demo_defs run_simps Let_def collect_simps)
  show ?thesis
    by (intro conjI 1 2 3 4 5 6 7 8)
qed

subsection \<open>One file\<close>

lemma uploadFile_answer:
  "answer (uploadFile env s ca fullBase su f w) = Inr su \<or>
   answer (uploadFile env s ca fullBase su f w) = Inr (su @ [f])"
  by (simp add: uploadFile_def Let_def run_simps split: option.splits)

lemma uploadFile_outcome:
  "length (recorded_outcomes (trace (uploadFile env s ca fullBase su f w))) = 1 \<and>
   (answer (uploadFile env s ca fullBase su f w) = Inr (su @ [f])) =
   (recorded_outcomes (trace (uploadFile env s ca fullBase su f w)) = [Published])"
  by (simp add: uploadFile_def Let_def run_simps recorded_outcomes_def collect_simps
      split: option.splits)

lemma uploadFile_reads:
  "map fst (collect read_of (trace (uploadFile env s ca fullBase su f w))) =
     [path_relative env fullBase f]"
  by (simp add: uploadFile_def Let_def run_simps collect_simps split: option.splits)

lemma uploadFile_posts:
  "map (\<lambda>p. req_content (fst p)) (uploads (trace (uploadFile env s ca fullBase su f w))) =
     collect content_of (trace (uploadFile env s ca fullBase su f w))"
  by (simp add: uploadFile_def Let_def run_simps uploads_def collect_simps split: option.splits)

lemma uploadFile_unread:
  "collect failedToRead_of (trace (uploadFile env s ca fullBase su f w)) =
     collect unread_of (trace (uploadFile env s ca fullBase su f w))"
  by (simp add: uploadFile_def Let_def run_simps collect_simps split: option.splits)

lemma uploadFile_published:
  "length (filter succeeded (recorded_outcomes (trace (uploadFile env s ca fullBase su f w)))) =
   length (filter (\<lambda>p. success (snd p)) (uploads (trace (uploadFile env s ca fullBase su f w))))"
  by (simp add: uploadFile_def Let_def run_simps recorded_outcomes_def uploads_def collect_simps
      succeeded_def split: option.splits)

text \<open>What the branch at lines 254 to 270 records, in terms of the flag and the status
  of the answer, as the code tests them.\<close>

lemma uploadFile_by_flag_and_status:
  assumes "readBinary env fullBase (path_relative env fullBase f) w = (Some bytes, w1)"
    and "postFile env
           \<lparr>req_url = s_url s, req_mode = s_mode s, req_apiKey = s_apiKey s,
            req_content = bytes, req_fields = s_fields s, req_headers = s_headers s,
            req_ca = ca, req_interactive = s_interactive s\<rparr> w1 = (result, w2)"
  shows "recorded_outcomes (trace (uploadFile env s ca fullBase successfulUploads f w)) =
           [if success result then Published
            else if status result = 402 then PaymentRequired
            else if status result = 409 then VersionConflict
            else if status result = 413 then TooLarge
            else UploadFailed]"
  using assms
  by (simp add: uploadFile_def Let_def run_simps recorded_outcomes_def collect_simps)

text \<open>
  C2. When the file was read and \<open>postFile\<close> has answered, the outcome that the loop
  records for the file is given by the HTTP status of the answer alone, as in the table
  of the spec: 2xx is a success (and the file joins the successful uploads), 402, 409
  and 413 are the payment, version and size failures, every other status is the
  generic failure. \<open>publishPilet\<close> takes the success from the flag of the answer; the
  hypothesis says that \<open>postFile\<close> sets the flag for the 2xx statuses and for no other.
\<close>

theorem uploadFile_classification:
  assumes "readBinary env fullBase (path_relative env fullBase f) w = (Some bytes, w1)"
    and "postFile env
           \<lparr>req_url = s_url s, req_mode = s_mode s, req_apiKey = s_apiKey s,
            req_content = bytes, req_fields = s_fields s, req_headers = s_headers s,
            req_ca = ca, req_interactive = s_interactive s\<rparr> w1 = (result, w2)"
    and "flag_follows_status result"
  shows "recorded_outcomes (trace (uploadFile env s ca fullBase successfulUploads f w)) =
           [classification (status result)] \<and>
         answer (uploadFile env s ca fullBase successfulUploads f w) =
           Inr (if is_2xx (status result) then successfulUploads @ [f] else successfulUploads)"
  using assms
  by (simp add: uploadFile_def Let_def run_simps recorded_outcomes_def collect_simps
      classification_def flag_follows_status_def is_2xx_def)

theorem uploadFile_classification_witness:
  "flag_follows_status (http 409) \<and>
   recorded_outcomes (trace (uploadFile demo_env demo_settings None ''/work'' [] ''a.tgz''
     [http 409])) = [VersionConflict] \<and>
   recorded_outcomes (trace (uploadFile demo_env demo_settings None ''/work'' [] ''a.tgz''
     [http 402])) = [PaymentRequired] \<and>
   recorded_outcomes (trace (uploadFile demo_env demo_settings None ''/work'' [] ''a.tgz''
     [http 413])) = [TooLarge] \<and>
   recorded_outcomes (trace (uploadFile demo_env demo_settings None ''/work'' [] ''a.tgz''
     [http 500])) = [UploadFailed] \<and>
   recorded_outcomes (trace (uploadFile demo_env demo_settings None ''/work'' [] ''a.tgz''
     [http 201])) = [Published] \<and>
   answer (uploadFile demo_env demo_settings None ''/work'' [] ''a.tgz'' [http 201]) =
     Inr [''a.tgz'']"
proof -
  have flag: "flag_follows_status (http code)" for code
    by (simp add: flag_follows_status_def http_def)
  have run: "recorded_outcomes (trace (uploadFile demo_env demo_settings None ''/work'' []
        ''a.tgz'' [http code])) = [classification code] \<and>
      answer (uploadFile demo_env demo_settings None ''/work'' [] ''a.tgz'' [http code]) =
        Inr (if is_2xx code then [] @ [''a.tgz''] else [])" for code
  proof -
    have r: "readBinary demo_env ''/work'' (path_relative demo_env ''/work'' ''a.tgz'')
        [http code] = (Some ''AAAA'', [http code])"
      by (simp add: demo_env_def feed_env_def on_disk_def)
    have p: "postFile demo_env
        \<lparr>req_url = s_url demo_settings, req_mode = s_mode demo_settings,
         req_apiKey = s_apiKey demo_settings, req_content = ''AAAA'',
         req_fields = s_fields demo_settings, req_headers = s_headers demo_settings,
         req_ca = None, req_interactive = s_interactive demo_settings\<rparr> [http code] =
        (http code, [])"
      by (simp add: demo_env_def feed_env_def)
    from uploadFile_classification [OF r p flag, of "[]"] show ?thesis
      by (simp add: http_def)
  qed
  from flag [of 409] run [of 409] run [of 402] run [of 413] run [of 500] run [of 201]
  show ?thesis
    by (simp add: classification_def is_2xx_def)
qed

subsection \<open>The loop\<close>

lemma uploadFiles_Cons:
  obtains u where
    "answer (uploadFile env s ca fullBase su f w) = Inr u"
    "trace (uploadFiles env s ca fullBase su (f # files) w) =
       trace (uploadFile env s ca fullBase su f w) @
       trace (uploadFiles env s ca fullBase u files (world (uploadFile env s ca fullBase su f w)))"
    "answer (uploadFiles env s ca fullBase su (f # files) w) =
       answer (uploadFiles env s ca fullBase u files (world (uploadFile env s ca fullBase su f w)))"
proof -
  from uploadFile_answer [of env s ca fullBase su f w]
  obtain u where u: "answer (uploadFile env s ca fullBase su f w) = Inr u" by blast
  then show thesis
    by (intro that [of u]) (simp_all add: trace_bind answer_bind)
qed

text \<open>A property of traces that holds of the empty trace and is kept when the trace of
  one more file is put in front holds of the trace of the loop.\<close>

lemma uploadFiles_trace_induct:
  assumes "P [] []"
    and "\<And>su f w fs t. P fs t \<Longrightarrow> P (f # fs) (trace (uploadFile env s ca fullBase su f w) @ t)"
  shows "P files (trace (uploadFiles env s ca fullBase su files w))"
proof (induction files arbitrary: su w)
  case Nil
  from assms(1) show ?case by (simp add: run_return)
next
  case (Cons f files)
  obtain u where
    tr: "trace (uploadFiles env s ca fullBase su (f # files) w) =
       trace (uploadFile env s ca fullBase su f w) @
       trace (uploadFiles env s ca fullBase u files (world (uploadFile env s ca fullBase su f w)))"
    by (rule uploadFiles_Cons)
  show ?case
    unfolding tr by (rule assms(2)) (rule Cons.IH)
qed

lemma uploadFiles_never_fails:
  "\<exists>uploaded. answer (uploadFiles env s ca fullBase su files w) = Inr uploaded"
proof (induction files arbitrary: su w)
  case Nil
  show ?case by (simp add: run_return)
next
  case (Cons f files)
  obtain u where
    "answer (uploadFiles env s ca fullBase su (f # files) w) =
       answer (uploadFiles env s ca fullBase u files (world (uploadFile env s ca fullBase su f w)))"
    by (rule uploadFiles_Cons)
  with Cons.IH [of u "world (uploadFile env s ca fullBase su f w)"] show ?case
    by simp
qed

lemma uploadFiles_reads:
  "map fst (collect read_of (trace (uploadFiles env s ca fullBase su files w))) =
     map (path_relative env fullBase) files"
  by (rule uploadFiles_trace_induct [where P = "\<lambda>fs t. map fst (collect read_of t) =
        map (path_relative env fullBase) fs"])
    (simp_all add: collect_simps uploadFile_reads)

lemma uploadFiles_outcomes:
  "length (recorded_outcomes (trace (uploadFiles env s ca fullBase su files w))) = length files"
  by (rule uploadFiles_trace_induct [where P = "\<lambda>fs t. length (recorded_outcomes t) = length fs"])
    (simp_all add: recorded_outcomes_def collect_simps
      uploadFile_outcome [unfolded recorded_outcomes_def])

lemma uploadFiles_posts:
  "map (\<lambda>p. req_content (fst p)) (uploads (trace (uploadFiles env s ca fullBase su files w))) =
     collect content_of (trace (uploadFiles env s ca fullBase su files w))"
  by (rule uploadFiles_trace_induct [where P = "\<lambda>fs t.
        map (\<lambda>p. req_content (fst p)) (uploads t) = collect content_of t"])
    (simp_all add: uploads_def collect_simps uploadFile_posts [unfolded uploads_def])

lemma uploadFiles_unread:
  "collect failedToRead_of (trace (uploadFiles env s ca fullBase su files w)) =
     collect unread_of (trace (uploadFiles env s ca fullBase su files w))"
  by (rule uploadFiles_trace_induct [where P = "\<lambda>fs t.
        collect failedToRead_of t = collect unread_of t"])
    (simp_all add: collect_simps uploadFile_unread)

lemma uploadFiles_published:
  "length (filter succeeded (recorded_outcomes (trace (uploadFiles env s ca fullBase su files w)))) =
   length (filter (\<lambda>p. success (snd p)) (uploads (trace (uploadFiles env s ca fullBase su files w))))"
  by (rule uploadFiles_trace_induct [where P = "\<lambda>fs t.
        length (filter succeeded (recorded_outcomes t)) =
        length (filter (\<lambda>p. success (snd p)) (uploads t))"])
    (simp_all add: recorded_outcomes_def uploads_def collect_simps
      uploadFile_published [unfolded recorded_outcomes_def uploads_def])

text \<open>
  C3. The loop never ends in a failure, whatever the reads and the feed service answer.
  It reads every file of the list, in the order of the list, and records one outcome per
  file. It uploads exactly the contents that were read, in that order: a file that could
  not be read is not uploaded, and each such file is reported with
  \<open>failedToRead_0063\<close>.
\<close>

theorem uploadFiles_attempts_every_file:
  "(\<exists>uploaded. answer (uploadFiles env s ca fullBase su files w) = Inr uploaded) \<and>
   map fst (collect read_of (trace (uploadFiles env s ca fullBase su files w))) =
     map (path_relative env fullBase) files \<and>
   length (recorded_outcomes (trace (uploadFiles env s ca fullBase su files w))) = length files \<and>
   map (\<lambda>p. req_content (fst p)) (uploads (trace (uploadFiles env s ca fullBase su files w))) =
     collect content_of (trace (uploadFiles env s ca fullBase su files w)) \<and>
   collect failedToRead_of (trace (uploadFiles env s ca fullBase su files w)) =
     collect unread_of (trace (uploadFiles env s ca fullBase su files w))"
  using uploadFiles_never_fails [of env s ca fullBase su files w]
  by (simp add: uploadFiles_reads uploadFiles_outcomes uploadFiles_posts uploadFiles_unread)

theorem uploadFiles_attempts_every_file_witness:
  "answer (uploadFiles demo_env demo_settings None ''/work'' []
     [''a.tgz'', ''c.tgz'', ''b.tgz''] [http 409, http 200]) = Inr [''b.tgz''] \<and>
   map fst (collect read_of (trace (uploadFiles demo_env demo_settings None ''/work'' []
     [''a.tgz'', ''c.tgz'', ''b.tgz''] [http 409, http 200]))) =
     [''a.tgz'', ''c.tgz'', ''b.tgz''] \<and>
   recorded_outcomes (trace (uploadFiles demo_env demo_settings None ''/work'' []
     [''a.tgz'', ''c.tgz'', ''b.tgz''] [http 409, http 200])) =
     [VersionConflict, Unreadable, Published] \<and>
   map (\<lambda>p. req_content (fst p)) (uploads (trace (uploadFiles demo_env demo_settings None
     ''/work'' [] [''a.tgz'', ''c.tgz'', ''b.tgz''] [http 409, http 200]))) =
     [''AAAA'', ''BBBB''] \<and>
   collect failedToRead_of (trace (uploadFiles demo_env demo_settings None ''/work'' []
     [''a.tgz'', ''c.tgz'', ''b.tgz''] [http 409, http 200])) = [''c.tgz'']"
  using uploadFiles_attempts_every_file [of demo_env demo_settings None "''/work''" "[]"
      "[''a.tgz'', ''c.tgz'', ''b.tgz'']" "[http 409, http 200]"]
  by (simp add: model_defs demo_defs run_simps Let_def recorded_outcomes_def uploads_def
      collect_simps)

subsection \<open>Before the loop: no outcome, no upload\<close>

lemma collect_io_all:
  assumes "\<And>x w. collect f (trace (g x w)) = []"
  shows "collect f (trace (io_all g xs w)) = []"
proof (induction xs arbitrary: w)
  case Nil
  show ?case by (simp add: run_simps collect_simps)
next
  case (Cons x xs)
  from assms Cons.IH show ?case
    by (simp add: run_simps collect_simps split: sum.splits)
qed

lemma stages_quiet:
  "collect outcome_of (trace (startBuild env fr sv ll bn as hooks entry w)) = []"
  "collect post_of (trace (startBuild env fr sv ll bn as hooks entry w)) = []"
  "collect outcome_of (trace (startPack env built w)) = []"
  "collect post_of (trace (startPack env built w)) = []"
  "collect outcome_of (trace (finishPack packed w)) = []"
  "collect post_of (trace (finishPack packed w)) = []"
  by (simp_all add: startBuild_def startPack_def finishPack_def Let_def run_simps collect_simps)

lemma call_quiet:
  "collect outcome_of (trace (call (matchFiles env b x) (MatchFiles b x) w)) = []"
  "collect post_of (trace (call (matchFiles env b x) (MatchFiles b x) w)) = []"
  "collect outcome_of (trace (call (downloadFile env x ca) (DownloadFile x ca) w)) = []"
  "collect post_of (trace (call (downloadFile env x ca) (DownloadFile x ca) w)) = []"
  "collect outcome_of (trace (call (findNpmTarball env x) (FindNpmTarball x) w)) = []"
  "collect post_of (trace (call (findNpmTarball env x) (FindNpmTarball x) w)) = []"
  by (simp_all add: run_simps collect_simps)

lemma getFiles_quiet:
  "collect outcome_of (trace (getFiles env baseDir sources from fr sv ll bn as ca hooks w)) = []"
  "collect post_of (trace (getFiles env baseDir sources from fr sv ll bn as ca hooks w)) = []"
  by (simp_all add: getFiles_def run_simps collect_simps collect_io_all stages_quiet call_quiet
      split: sum.splits PiletPublishSource.splits)

lemma loadCertificate_quiet:
  "collect outcome_of (trace (loadCertificate env c w)) = []"
  "collect post_of (trace (loadCertificate env c w)) = []"
  by (simp_all add: loadCertificate_def Let_def run_simps collect_simps
      split: sum.splits option.splits)

subsection \<open>The verdict\<close>

lemma length_filter_all: "(length (filter P xs) = length xs) = list_all P xs"
proof -
  have "(length (filter P xs) = length xs) = (length (filter (\<lambda>x. \<not> P x) xs) = 0)"
    using sum_length_filter_compl [of P xs] by arith
  also have "\<dots> = list_all P xs"
    by (simp add: filter_empty_conv list_all_iff)
  finally show ?thesis .
qed

text \<open>The loop adds one file to \<^verbatim>\<open>successfulUploads\<close> for every success it records.\<close>

lemma uploadFiles_run:
  "\<exists>uploaded. answer (uploadFiles env s ca fullBase su files w) = Inr uploaded \<and>
     length uploaded = length su +
       length (filter succeeded (recorded_outcomes (trace (uploadFiles env s ca fullBase su files w))))"
proof (induction files arbitrary: su w)
  case Nil
  then show ?case by (simp add: run_simps recorded_outcomes_def collect_Nil)
next
  case (Cons f files)
  let ?one = "uploadFile env s ca fullBase su f w"
  obtain u where u: "answer ?one = Inr u"
    and tr: "trace (uploadFiles env s ca fullBase su (f # files) w) =
       trace ?one @ trace (uploadFiles env s ca fullBase u files (world ?one))"
    and an: "answer (uploadFiles env s ca fullBase su (f # files) w) =
       answer (uploadFiles env s ca fullBase u files (world ?one))"
    by (rule uploadFiles_Cons)
  from uploadFile_outcome [of env s ca fullBase su f w]
  have one: "length (recorded_outcomes (trace ?one)) = 1"
    and pub: "(answer ?one = Inr (su @ [f])) = (recorded_outcomes (trace ?one) = [Published])"
    by simp_all
  from one obtain oc where oc: "recorded_outcomes (trace ?one) = [oc]"
    by (cases "recorded_outcomes (trace ?one)") simp_all
  have lu: "length u = length su + length (filter succeeded (recorded_outcomes (trace ?one)))"
  proof (cases "oc = Published")
    case True
    with pub oc u show ?thesis by (simp add: succeeded_def)
  next
    case False
    with pub oc have "answer ?one \<noteq> Inr (su @ [f])" by simp
    with uploadFile_answer [of env s ca fullBase su f w] u have "u = su" by auto
    with False oc show ?thesis by (simp add: succeeded_def)
  qed
  from Cons.IH [of u "world ?one"] obtain v where
    v: "answer (uploadFiles env s ca fullBase u files (world ?one)) = Inr v"
    and lv: "length v = length u + length (filter succeeded
        (recorded_outcomes (trace (uploadFiles env s ca fullBase u files (world ?one)))))"
    by blast
  from v an have "answer (uploadFiles env s ca fullBase su (f # files) w) = Inr v"
    by simp
  moreover have "length v = length su + length (filter succeeded
      (recorded_outcomes (trace (uploadFiles env s ca fullBase su (f # files) w))))"
    unfolding tr using lv lu by (simp add: recorded_outcomes_def collect_append)
  ultimately show ?case by blast
qed

lemma publishFiles_empty:
  "publishFiles env s ca fullBase sources [] w =
     (Inl (Fatal missingPiletTarball_0061 [Texts sources]),
      [Log generalDebug_0003 [Text ''Received available tgz files.'']], w)"
  by (simp add: publishFiles_def io_defs)

lemma publishFiles_nonempty:
  assumes "files \<noteq> []"
  shows "(answer (publishFiles env s ca fullBase sources files w) = Inr ()) =
           list_all succeeded (recorded_outcomes (trace (publishFiles env s ca fullBase sources files w)))"
    and "length (recorded_outcomes (trace (publishFiles env s ca fullBase sources files w))) = length files"
    and "answer (publishFiles env s ca fullBase sources files w) = Inr () \<or>
         answer (publishFiles env s ca fullBase sources files w) = Inl (Fatal failedUploading_0064 [])"
    and "uploads (trace (publishFiles env s ca fullBase sources files w)) =
         uploads (trace (uploadFiles env s ca fullBase [] files w))"
    and "recorded_outcomes (trace (publishFiles env s ca fullBase sources files w)) =
         recorded_outcomes (trace (uploadFiles env s ca fullBase [] files w))"
proof -
  let ?loop = "uploadFiles env s ca fullBase [] files w"
  from uploadFiles_run [of env s ca fullBase "[]" files w] obtain u where
    u: "answer ?loop = Inr u"
    and lu: "length u = length (filter succeeded (recorded_outcomes (trace ?loop)))"
    by auto
  have n: "length (recorded_outcomes (trace ?loop)) = length files"
    by (rule uploadFiles_outcomes)
  show tr: "recorded_outcomes (trace (publishFiles env s ca fullBase sources files w)) =
      recorded_outcomes (trace ?loop)"
    using assms u
    by (simp add: publishFiles_def run_simps recorded_outcomes_def collect_simps)
  show "uploads (trace (publishFiles env s ca fullBase sources files w)) = uploads (trace ?loop)"
    using assms u
    by (simp add: publishFiles_def run_simps uploads_def collect_simps)
  have an: "answer (publishFiles env s ca fullBase sources files w) =
      (if length files = length u then Inr () else Inl (Fatal failedUploading_0064 []))"
    using assms u by (simp add: publishFiles_def run_simps)
  have eq: "(length files = length u) = list_all succeeded (recorded_outcomes (trace ?loop))"
  proof -
    have "(length files = length u) =
          (length (filter succeeded (recorded_outcomes (trace ?loop))) =
           length (recorded_outcomes (trace ?loop)))"
      using lu n by auto
    then show ?thesis by (simp only: length_filter_all)
  qed
  show "(answer (publishFiles env s ca fullBase sources files w) = Inr ()) =
           list_all succeeded (recorded_outcomes (trace (publishFiles env s ca fullBase sources files w)))"
    using an eq tr by simp
  show "length (recorded_outcomes (trace (publishFiles env s ca fullBase sources files w))) = length files"
    using tr n by simp
  show "answer (publishFiles env s ca fullBase sources files w) = Inr () \<or>
         answer (publishFiles env s ca fullBase sources files w) = Inl (Fatal failedUploading_0064 [])"
    using an by simp
qed

text \<open>A run of \<open>publishPilet\<close> either stops before the loop, with a failure, no
  outcome and no upload, or it is a run of \<open>publishFiles\<close> on a list of files.\<close>

lemma publishPilet_cases:
  obtains (stopped) e where
      "answer (publishPilet env cfg baseDir options w) = Inl e"
      "recorded_outcomes (trace (publishPilet env cfg baseDir options w)) = []"
      "uploads (trace (publishPilet env cfg baseDir options w)) = []"
  | (resolved) ca files w' where
      "answer (publishPilet env cfg baseDir options w) =
         answer (publishFiles env (destructure cfg options) ca
           (path_resolve env (cwd env) (default_to baseDir (cwd env)))
           (sources_of (s_source (destructure cfg options))) files w')"
      "recorded_outcomes (trace (publishPilet env cfg baseDir options w)) =
         recorded_outcomes (trace (publishFiles env (destructure cfg options) ca
           (path_resolve env (cwd env) (default_to baseDir (cwd env)))
           (sources_of (s_source (destructure cfg options))) files w'))"
      "uploads (trace (publishPilet env cfg baseDir options w)) =
         uploads (trace (publishFiles env (destructure cfg options) ca
           (path_resolve env (cwd env) (default_to baseDir (cwd env)))
           (sources_of (s_source (destructure cfg options))) files w'))"
proof -
  let ?s = "destructure cfg options"
  let ?base = "path_resolve env (cwd env) (default_to baseDir (cwd env))"
  let ?cert = "loadCertificate env (s_cert ?s) w"
  show thesis
  proof (cases "truthy (s_url ?s)")
    case False
    then show thesis
      by (intro stopped [of "Fatal missingPiletFeedUrl_0060 []"])
        (simp_all add: publishPilet_def Let_def run_simps recorded_outcomes_def uploads_def
          collect_simps)
  next
    case url: True
    show thesis
    proof (cases "answer ?cert")
      case (Inl e)
      with url show thesis
        by (intro stopped [of e])
          (simp_all add: publishPilet_def Let_def run_simps recorded_outcomes_def uploads_def
            collect_simps loadCertificate_quiet)
    next
      case (Inr ca)
      let ?get = "getFiles env ?base (sources_of (s_source ?s)) (s_from ?s) (s_fresh ?s)
          (s_schemaVersion ?s) (s_logLevel ?s) (s_bundlerName ?s) (s_args ?s) ca (s_hooks ?s)
          (world ?cert)"
      show thesis
      proof (cases "answer ?get")
        case (Inl e)
        with url Inr show thesis
          by (intro stopped [of e])
            (simp_all add: publishPilet_def Let_def run_simps recorded_outcomes_def uploads_def
              collect_simps loadCertificate_quiet getFiles_quiet)
      next
        case files: (Inr files)
        with url Inr show thesis
          by (intro resolved [of ca files "world ?get"])
            (simp_all add: publishPilet_def Let_def run_simps recorded_outcomes_def uploads_def
              collect_simps loadCertificate_quiet getFiles_quiet)
      qed
    qed
  qed
qed

lemma publishPilet_verdict:
  "(answer (publishPilet env cfg baseDir options w) = Inr ()) =
     (recorded_outcomes (trace (publishPilet env cfg baseDir options w)) \<noteq> [] \<and>
      list_all succeeded (recorded_outcomes (trace (publishPilet env cfg baseDir options w))))"
proof -
  let ?run = "publishPilet env cfg baseDir options w"
  show ?thesis
  proof (cases rule: publishPilet_cases [of env cfg baseDir options w])
    case (stopped e)
    then show ?thesis by simp
  next
    case (resolved ca files w')
    show ?thesis
    proof (cases "files = []")
      case True
      with resolved show ?thesis
        by (simp add: publishFiles_empty answer_def trace_def recorded_outcomes_def collect_simps)
    next
      case False
      let ?p = "publishFiles env (destructure cfg options) ca
           (path_resolve env (cwd env) (default_to baseDir (cwd env)))
           (sources_of (s_source (destructure cfg options))) files w'"
      from publishFiles_nonempty(1,2) [OF False, of env "destructure cfg options" ca
          "path_resolve env (cwd env) (default_to baseDir (cwd env))"
          "sources_of (s_source (destructure cfg options))" w']
      have iff: "(answer ?p = Inr ()) = list_all succeeded (recorded_outcomes (trace ?p))"
        and len: "length (recorded_outcomes (trace ?p)) = length files"
        by simp_all
      from len False have "recorded_outcomes (trace ?p) \<noteq> []" by auto
      with iff resolved show ?thesis by simp
    qed
  qed
qed

lemma publishPilet_success_uploads:
  assumes "answer (publishPilet env cfg baseDir options w) = Inr ()"
  shows "filter (\<lambda>p. success (snd p)) (uploads (trace (publishPilet env cfg baseDir options w))) \<noteq> []"
proof (cases rule: publishPilet_cases [of env cfg baseDir options w])
  case (stopped e)
  with assms show ?thesis by simp
next
  case (resolved ca files w')
  let ?p = "publishFiles env (destructure cfg options) ca
         (path_resolve env (cwd env) (default_to baseDir (cwd env)))
         (sources_of (s_source (destructure cfg options))) files w'"
  show ?thesis
  proof (cases "files = []")
    case True
    with resolved assms show ?thesis
      by (simp add: publishFiles_empty answer_def)
  next
    case False
    from publishFiles_nonempty(1,2) [OF False, of env "destructure cfg options" ca
          "path_resolve env (cwd env) (default_to baseDir (cwd env))"
          "sources_of (s_source (destructure cfg options))" w']
      resolved assms
    have "list_all succeeded (recorded_outcomes (trace ?p))"
      and "length (recorded_outcomes (trace ?p)) = length files"
      by simp_all
    then have "length (filter succeeded (recorded_outcomes (trace ?p))) = length files"
      by (simp add: length_filter_all [symmetric])
    with False have "filter succeeded (recorded_outcomes (trace ?p)) \<noteq> []"
      by auto
    with publishFiles_nonempty(4,5) [OF False, of env "destructure cfg options" ca
          "path_resolve env (cwd env) (default_to baseDir (cwd env))"
          "sources_of (s_source (destructure cfg options))" w']
      uploadFiles_published [of env "destructure cfg options" ca
          "path_resolve env (cwd env) (default_to baseDir (cwd env))" "[]" files w']
    have "filter (\<lambda>p. success (snd p)) (uploads (trace ?p)) \<noteq> []"
      by (metis (no_types, lifting) length_0_conv)
    with resolved show ?thesis by simp
  qed
qed

text \<open>
  C1, as the claim states it, fails where no file was resolved: no outcome is recorded,
  so every recorded outcome is a success, and yet \<open>publishPilet\<close> fails, with
  \<open>missingPiletTarball_0061\<close>.
\<close>

theorem publishPilet_verdict_empty_counterexample:
  "answer (publishPilet empty_env no_config None demo_options [http 200]) =
     Inl (Fatal missingPiletTarball_0061 [Texts [''*.tgz'']]) \<and>
   recorded_outcomes (trace (publishPilet empty_env no_config None demo_options [http 200])) = [] \<and>
   \<not> ((answer (publishPilet empty_env no_config None demo_options [http 200]) = Inr ()) =
      list_all succeeded
        (recorded_outcomes (trace (publishPilet empty_env no_config None demo_options [http 200]))))"
  by (simp add: model_defs demo_defs run_simps Let_def recorded_outcomes_def collect_simps)

text \<open>
  C1, amended. For a list of resolved files that is not empty, the part of
  \<open>publishPilet\<close> that follows \<open>getFiles\<close> succeeds exactly when every recorded outcome
  is a success; it records one outcome per file, whether outcomes are failures or not;
  and when it does not succeed it fails with \<open>failedUploading_0064\<close>. For
  \<open>publishPilet\<close> as a whole: it succeeds exactly when at least one outcome was
  recorded and every recorded outcome is a success.
\<close>

theorem publishFiles_verdict:
  assumes "files \<noteq> []"
  shows "(answer (publishFiles env s ca fullBase sources files w) = Inr ()) =
           list_all succeeded
             (recorded_outcomes (trace (publishFiles env s ca fullBase sources files w))) \<and>
         length (recorded_outcomes (trace (publishFiles env s ca fullBase sources files w))) =
           length files \<and>
         (answer (publishFiles env s ca fullBase sources files w) = Inr () \<or>
          answer (publishFiles env s ca fullBase sources files w) =
            Inl (Fatal failedUploading_0064 [])) \<and>
         (answer (publishPilet env cfg baseDir options w) = Inr ()) =
           (recorded_outcomes (trace (publishPilet env cfg baseDir options w)) \<noteq> [] \<and>
            list_all succeeded
              (recorded_outcomes (trace (publishPilet env cfg baseDir options w))))"
  using publishFiles_nonempty(1,2,3) [OF assms, of env s ca fullBase sources w]
    publishPilet_verdict [of env cfg baseDir options w]
  by simp

theorem publishFiles_verdict_witness:
  "[''a.tgz'', ''b.tgz''] \<noteq> [] \<and>
   answer (publishFiles demo_env demo_settings None ''/work'' [''*.tgz''] [''a.tgz'', ''b.tgz'']
     [http 409, http 200]) = Inl (Fatal failedUploading_0064 []) \<and>
   recorded_outcomes (trace (publishFiles demo_env demo_settings None ''/work'' [''*.tgz'']
     [''a.tgz'', ''b.tgz''] [http 409, http 200])) = [VersionConflict, Published] \<and>
   answer (publishPilet demo_env no_config None demo_options [http 200, http 200]) = Inr () \<and>
   recorded_outcomes (trace (publishPilet demo_env no_config None demo_options
     [http 200, http 200])) = [Published, Published]"
proof -
  have ne: "[''a.tgz'', ''b.tgz''] \<noteq> []" by simp
  from publishFiles_verdict [OF ne, of demo_env demo_settings None "''/work''" "[''*.tgz'']"
      "[http 409, http 200]" no_config None demo_options]
    publishFiles_verdict [OF ne, of demo_env demo_settings None "''/work''" "[''*.tgz'']"
      "[http 200, http 200]" no_config None demo_options]
  show ?thesis
    by (simp add: model_defs demo_defs run_simps Let_def recorded_outcomes_def collect_simps)
qed

text \<open>
  C7. When the feed URL is set, the certificate step has not failed and \<open>getFiles\<close>
  returns the empty list, \<open>publishPilet\<close> fails with \<open>missingPiletTarball_0061\<close>,
  naming the sources, and has uploaded nothing. And whenever a run of \<open>publishPilet\<close>
  succeeds, at least one upload of that run was a success.
\<close>

theorem publishPilet_no_files:
  assumes "s = destructure cfg options"
    and "fullBase = path_resolve env (cwd env) (default_to baseDir (cwd env))"
    and "sources = sources_of (s_source s)"
    and "truthy (s_url s)"
    and "answer (loadCertificate env (s_cert s) w) = Inr ca"
    and "answer (getFiles env fullBase sources (s_from s) (s_fresh s) (s_schemaVersion s)
           (s_logLevel s) (s_bundlerName s) (s_args s) ca (s_hooks s)
           (world (loadCertificate env (s_cert s) w))) = Inr []"
  shows "answer (publishPilet env cfg baseDir options w) =
           Inl (Fatal missingPiletTarball_0061 [Texts sources]) \<and>
         uploads (trace (publishPilet env cfg baseDir options w)) = [] \<and>
         (answer (publishPilet env' cfg' baseDir' options' w') = Inr () \<longrightarrow>
          filter (\<lambda>p. success (snd p))
            (uploads (trace (publishPilet env' cfg' baseDir' options' w'))) \<noteq> [])"
proof -
  have "answer (publishPilet env cfg baseDir options w) =
      Inl (Fatal missingPiletTarball_0061 [Texts sources])"
    using assms
    by (simp add: publishPilet_def Let_def run_simps publishFiles_def)
  moreover have "uploads (trace (publishPilet env cfg baseDir options w)) = []"
    using assms
    by (simp add: publishPilet_def Let_def run_simps publishFiles_def uploads_def collect_simps
        loadCertificate_quiet getFiles_quiet)
  ultimately show ?thesis
    using publishPilet_success_uploads [of env' cfg' baseDir' options' w'] by simp
qed

theorem publishPilet_no_files_witness:
  "answer (publishPilet empty_env no_config None demo_options [http 200]) =
     Inl (Fatal missingPiletTarball_0061 [Texts [''*.tgz'']]) \<and>
   uploads (trace (publishPilet empty_env no_config None demo_options [http 200])) = [] \<and>
   answer (publishPilet demo_env no_config None demo_options [http 200, http 201]) = Inr () \<and>
   length (filter (\<lambda>p. success (snd p))
     (uploads (trace (publishPilet demo_env no_config None demo_options [http 200, http 201])))) = 2"
proof -
  have url: "truthy (s_url (destructure no_config demo_options))"
    by (simp add: model_defs demo_defs Let_def)
  have crt: "answer (loadCertificate empty_env (s_cert (destructure no_config demo_options))
      [http 200]) = Inr None"
    by (simp add: model_defs demo_defs run_simps Let_def)
  have res: "answer (getFiles empty_env
      (path_resolve empty_env (cwd empty_env) (default_to None (cwd empty_env)))
      (sources_of (s_source (destructure no_config demo_options)))
      (s_from (destructure no_config demo_options)) (s_fresh (destructure no_config demo_options))
      (s_schemaVersion (destructure no_config demo_options))
      (s_logLevel (destructure no_config demo_options))
      (s_bundlerName (destructure no_config demo_options))
      (s_args (destructure no_config demo_options)) None
      (s_hooks (destructure no_config demo_options))
      (world (loadCertificate empty_env (s_cert (destructure no_config demo_options))
        [http 200]))) = Inr []"
    by (simp add: model_defs demo_defs run_simps Let_def)
  from publishPilet_no_files [OF refl refl refl url crt res, of demo_env no_config None
      demo_options "[http 200, http 201]"]
  show ?thesis
    by (simp add: model_defs demo_defs run_simps Let_def uploads_def collect_simps)
qed

subsection \<open>The certificate\<close>

text \<open>
  C5, as the claim states it, fails: with \<open>cert\<close> set to a path that does not exist,
  the run goes on without a certificate; here it uploads two files and succeeds.
\<close>

theorem publishPilet_missing_certificate_counterexample:
  "s_cert (destructure no_config cert_options) = Some ''missing.pem'' \<and>
   \<not> fst (checkExists demo_env (Some ''missing.pem'') [http 200, http 200]) \<and>
   answer (publishPilet demo_env no_config None cert_options [http 200, http 200]) = Inr () \<and>
   length (uploads (trace (publishPilet demo_env no_config None cert_options
     [http 200, http 200]))) = 2"
  by (simp add: model_defs demo_defs run_simps Let_def uploads_def collect_simps)

text \<open>
  C5, amended. With the feed URL set and \<open>cert\<close> set to a path that does not exist
  (\<open>checkExists\<close> answers false), the certificate step reads no file and yields no
  certificate, and \<open>publishPilet\<close> goes on: after the five events of the steps so far
  it resolves the files and publishes them, with \<open>ca\<close> undefined.
\<close>

theorem publishPilet_missing_certificate:
  assumes "s = destructure cfg options"
    and "fullBase = path_resolve env (cwd env) (default_to baseDir (cwd env))"
    and "sources = sources_of (s_source s)"
    and "truthy (s_url s)"
    and "s_cert s = Some path"
    and "checkExists env (Some path) w = (False, w1)"
  shows "loadCertificate env (s_cert s) w =
           (Inr None,
            [Log generalDebug_0003 [Text ''Checking if certificate exists.''],
             CheckExists (Some path) False],
            w1) \<and>
         publishPilet env cfg baseDir options w =
           after
             [SetLogLevel (s_logLevel s),
              Progress ''Reading configuration ...'' [],
              Log generalDebug_0003 [Text ''Checking if certificate exists.''],
              CheckExists (Some path) False,
              Log generalDebug_0003 [Text ''Getting the tgz files ...'']]
             (io_bind
                (getFiles env fullBase sources (s_from s) (s_fresh s) (s_schemaVersion s)
                   (s_logLevel s) (s_bundlerName s) (s_args s) None (s_hooks s))
                (publishFiles env s None fullBase sources) w1)"
proof -
  have cert: "loadCertificate env (s_cert s) w =
           (Inr None,
            [Log generalDebug_0003 [Text ''Checking if certificate exists.''],
             CheckExists (Some path) False],
            w1)"
    using assms(5,6) by (simp add: loadCertificate_def io_defs)
  then have parts: "answer (loadCertificate env (s_cert s) w) = Inr None"
    "trace (loadCertificate env (s_cert s) w) =
       [Log generalDebug_0003 [Text ''Checking if certificate exists.''],
        CheckExists (Some path) False]"
    "world (loadCertificate env (s_cert s) w) = w1"
    by (simp_all add: answer_def trace_def world_def)
  have "publishPilet env cfg baseDir options w =
      (answer (publishPilet env cfg baseDir options w),
       trace (publishPilet env cfg baseDir options w),
       world (publishPilet env cfg baseDir options w))"
    by (rule run_eq)
  also have "\<dots> = after
             [SetLogLevel (s_logLevel s),
              Progress ''Reading configuration ...'' [],
              Log generalDebug_0003 [Text ''Checking if certificate exists.''],
              CheckExists (Some path) False,
              Log generalDebug_0003 [Text ''Getting the tgz files ...'']]
             (io_bind
                (getFiles env fullBase sources (s_from s) (s_fresh s) (s_schemaVersion s)
                   (s_logLevel s) (s_bundlerName s) (s_args s) None (s_hooks s))
                (publishFiles env s None fullBase sources) w1)"
    using assms(4) parts
    unfolding assms(1,2,3)
    by (simp add: publishPilet_def Let_def run_simps after_def split: sum.splits)
  finally show ?thesis using cert by simp
qed

theorem publishPilet_missing_certificate_witness:
  "truthy (s_url (destructure no_config cert_options)) \<and>
   s_cert (destructure no_config cert_options) = Some ''missing.pem'' \<and>
   checkExists demo_env (Some ''missing.pem'') [http 200] = (False, [http 200]) \<and>
   loadCertificate demo_env (Some ''missing.pem'') [http 200] =
     (Inr None,
      [Log generalDebug_0003 [Text ''Checking if certificate exists.''],
       CheckExists (Some ''missing.pem'') False],
      [http 200]) \<and>
   collect read_of (trace (publishPilet demo_env no_config None cert_options [http 200])) =
     [(''a.tgz'', Some ''AAAA''), (''b.tgz'', Some ''BBBB'')] \<and>
   map (\<lambda>p. req_ca (fst p))
     (uploads (trace (publishPilet demo_env no_config None cert_options [http 200]))) =
     [None, None]"
proof -
  have url: "truthy (s_url (destructure no_config cert_options))"
    by (simp add: model_defs demo_defs Let_def)
  have crt: "s_cert (destructure no_config cert_options) = Some ''missing.pem''"
    by (simp add: model_defs demo_defs Let_def)
  have chk: "checkExists demo_env (Some ''missing.pem'') [http 200] = (False, [http 200])"
    by (simp add: demo_defs)
  note run = publishPilet_missing_certificate [OF refl refl refl url crt chk, of None]
  from run crt have step: "loadCertificate demo_env (Some ''missing.pem'') [http 200] =
     (Inr None,
      [Log generalDebug_0003 [Text ''Checking if certificate exists.''],
       CheckExists (Some ''missing.pem'') False],
      [http 200])"
    by simp
  have reads: "collect read_of (trace (publishPilet demo_env no_config None cert_options
      [http 200])) = [(''a.tgz'', Some ''AAAA''), (''b.tgz'', Some ''BBBB'')]"
    by (simp add: model_defs demo_defs run_simps Let_def collect_simps)
  have cas: "map (\<lambda>p. req_ca (fst p))
      (uploads (trace (publishPilet demo_env no_config None cert_options [http 200]))) =
      [None, None]"
    by (simp add: model_defs demo_defs run_simps Let_def uploads_def collect_simps)
  show ?thesis
    by (intro conjI url crt chk step reads cas)
qed

subsection \<open>The order of the resolved files\<close>

lemma flatten_concat: "flatten xss = concat xss"
proof -
  have "foldl (\<lambda>result files. result @ files) acc xss = acc @ concat xss" for acc :: "'a list"
    by (induction xss arbitrary: acc) simp_all
  then show ?thesis by (simp add: flatten_def)
qed

lemma io_all_calls:
  "\<exists>ys. length ys = length xs \<and>
     answer (io_all (\<lambda>x. call (h x) (E x)) xs w) = Inr ys \<and>
     trace (io_all (\<lambda>x. call (h x) (E x)) xs w) = map (\<lambda>p. E (fst p) (snd p)) (zip xs ys)"
proof (induction xs arbitrary: w)
  case Nil
  show ?case by (simp add: run_simps)
next
  case (Cons x xs)
  from Cons.IH [of "snd (h x w)"] obtain ys where
    "length ys = length xs"
    "answer (io_all (\<lambda>x. call (h x) (E x)) xs (snd (h x w))) = Inr ys"
    "trace (io_all (\<lambda>x. call (h x) (E x)) xs (snd (h x w))) =
       map (\<lambda>p. E (fst p) (snd p)) (zip xs ys)"
    by blast
  then show ?case
    by (intro exI [of _ "fst (h x w) # ys"]) (simp add: run_simps)
qed

lemma io_all_matchFiles:
  "answer (io_all (\<lambda>s. call (matchFiles env baseDir s) (MatchFiles baseDir s)) sources w) =
     Inr (match_each env baseDir sources w) \<and>
   trace (io_all (\<lambda>s. call (matchFiles env baseDir s) (MatchFiles baseDir s)) sources w) =
     map (\<lambda>p. MatchFiles baseDir (fst p) (snd p)) (zip sources (match_each env baseDir sources w))"
  by (induction sources arbitrary: w) (simp_all add: run_simps)

lemma length_match_each: "length (match_each env baseDir sources w) = length sources"
  by (induction sources arbitrary: w) simp_all

lemma collect_match_of:
  "collect match_of (map (\<lambda>p. MatchFiles baseDir (fst p) (snd p)) ps) = ps"
  by (induction ps) (simp_all add: collect_simps)

lemma collect_lookup_of:
  "collect lookup_of (map (\<lambda>p. FindNpmTarball (fst p) (snd p)) ps) = ps"
  "collect download_of (map (\<lambda>p. FindNpmTarball (fst p) (snd p)) ps) = []"
  by (induction ps) (simp_all add: collect_simps)

lemma collect_download_of:
  "collect download_of (map (\<lambda>p. DownloadFile (fst p) ca (snd p)) ps) =
     map (\<lambda>p. (fst p, ca, snd p)) ps"
  "collect lookup_of (map (\<lambda>p. DownloadFile (fst p) ca (snd p)) ps) = []"
  by (induction ps) (simp_all add: collect_simps)

text \<open>
  C8. Without \<open>fresh\<close> and from \<open>local\<close>, \<open>getFiles\<close> returns the concatenation of the
  matches of the patterns, pattern after pattern in the order of the sources, each
  pattern's matches in the order in which \<open>matchFiles\<close> gave them. The trace shows the
  same: one call of \<open>matchFiles\<close> per source, in the order of the sources.
\<close>

theorem getFiles_local_order:
  "answer (getFiles env baseDir sources FromLocal False originalSchemaVersion logLevel
     bundlerName as ca hooks w) = Inr (concat (match_each env baseDir sources w)) \<and>
   collect match_of (trace (getFiles env baseDir sources FromLocal False originalSchemaVersion
     logLevel bundlerName as ca hooks w)) = zip sources (match_each env baseDir sources w) \<and>
   length (match_each env baseDir sources w) = length sources"
  by (simp add: getFiles_def run_simps io_all_matchFiles flatten_concat collect_simps
      collect_match_of length_match_each)

theorem getFiles_local_order_witness:
  "answer (getFiles demo_env ''/work'' [''*.tgz'', ''*.zip'', ''*.tgz''] FromLocal False None
     info None [] None [] [http 200]) = Inr [''a.tgz'', ''b.tgz'', ''a.tgz'', ''b.tgz''] \<and>
   match_each demo_env ''/work'' [''*.tgz'', ''*.zip'', ''*.tgz''] [http 200] =
     [[''a.tgz'', ''b.tgz''], [], [''a.tgz'', ''b.tgz'']]"
  using getFiles_local_order [of demo_env "''/work''" "[''*.tgz'', ''*.zip'', ''*.tgz'']" None
      info None "[]" None "[]" "[http 200]"]
  by (simp add: demo_defs)

lemma dropWhile_all: "(\<And>x. x \<in> set xs \<Longrightarrow> P x) \<Longrightarrow> dropWhile P (xs @ ys) = dropWhile P ys"
  by (induction xs) simp_all

lemma collect_empty: "(\<And>x. x \<in> set xs \<Longrightarrow> f x = []) \<Longrightarrow> collect f xs = []"
  by (induction xs) (simp_all add: collect_simps)

lemma lookups_then_downloads:
  "lookups_before_downloads
     (pre # pre' # map (\<lambda>p. FindNpmTarball (fst p) (snd p)) ls @
      Log c as # map (\<lambda>p. DownloadFile (fst p) ca (snd p)) ds)"
  if "download_of pre = []" "download_of pre' = []"
proof -
  let ?downloads = "map (\<lambda>p. DownloadFile (fst p) ca (snd p)) ds"
  have "dropWhile (\<lambda>e. download_of e = [])
      ((pre # pre' # map (\<lambda>p. FindNpmTarball (fst p) (snd p)) ls @ [Log c as]) @ ?downloads) =
      dropWhile (\<lambda>e. download_of e = []) ?downloads"
    using that by (intro dropWhile_all) auto
  moreover have "collect lookup_of (dropWhile (\<lambda>e. download_of e = []) ?downloads) = []"
  proof (rule collect_empty)
    fix x assume "x \<in> set (dropWhile (\<lambda>e. download_of e = []) ?downloads)"
    then have "x \<in> set ?downloads" by (rule set_dropWhileD)
    then show "lookup_of x = []" by auto
  qed
  ultimately show ?thesis by (simp add: lookups_before_downloads_def)
qed

text \<open>
  C9. Without \<open>fresh\<close> and from \<open>npm\<close>, the trace of \<open>getFiles\<close> has every call of
  \<open>findNpmTarball\<close> before the first call of \<open>downloadFile\<close>; there is one lookup per
  source, in the order of the sources; and the downloads are made, in the same order,
  for the URLs that the lookups returned, with the certificate of the run, and their
  files, concatenated, are what \<open>getFiles\<close> returns.
\<close>

theorem getFiles_npm_phases:
  "lookups_before_downloads
     (trace (getFiles env baseDir sources FromNpm False originalSchemaVersion logLevel
        bundlerName as ca hooks w)) \<and>
   map fst (collect lookup_of
     (trace (getFiles env baseDir sources FromNpm False originalSchemaVersion logLevel
        bundlerName as ca hooks w))) = sources \<and>
   map fst (collect download_of
     (trace (getFiles env baseDir sources FromNpm False originalSchemaVersion logLevel
        bundlerName as ca hooks w))) =
   map snd (collect lookup_of
     (trace (getFiles env baseDir sources FromNpm False originalSchemaVersion logLevel
        bundlerName as ca hooks w))) \<and>
   map (\<lambda>d. fst (snd d)) (collect download_of
     (trace (getFiles env baseDir sources FromNpm False originalSchemaVersion logLevel
        bundlerName as ca hooks w))) = replicate (length sources) ca \<and>
   answer (getFiles env baseDir sources FromNpm False originalSchemaVersion logLevel
        bundlerName as ca hooks w) =
   Inr (concat (map (\<lambda>d. snd (snd d)) (collect download_of
     (trace (getFiles env baseDir sources FromNpm False originalSchemaVersion logLevel
        bundlerName as ca hooks w)))))"
proof -
  let ?run = "getFiles env baseDir sources FromNpm False originalSchemaVersion logLevel
      bundlerName as ca hooks w"
  let ?look = "io_all (\<lambda>s. call (findNpmTarball env s) (FindNpmTarball s)) sources w"
  from io_all_calls [of sources "findNpmTarball env" FindNpmTarball w]
  obtain urls where urls: "length urls = length sources" "answer ?look = Inr urls"
    "trace ?look = map (\<lambda>p. FindNpmTarball (fst p) (snd p)) (zip sources urls)"
    by blast
  let ?down = "io_all (\<lambda>url. call (downloadFile env url ca) (DownloadFile url ca)) urls
      (world ?look)"
  from io_all_calls [of urls "\<lambda>url. downloadFile env url ca" "\<lambda>url. DownloadFile url ca"
      "world ?look"]
  obtain fss where fss: "length fss = length urls" "answer ?down = Inr fss"
    "trace ?down = map (\<lambda>p. DownloadFile (fst p) ca (snd p)) (zip urls fss)"
    by blast
  have tr: "trace ?run =
      Log generalDebug_0003 [Text ''Did not find fresh flag. Trying to match from'', Text ''npm''] #
      Log generalDebug_0003 [Text ''View npm package'', Texts sources] #
      map (\<lambda>p. FindNpmTarball (fst p) (snd p)) (zip sources urls) @
      Log generalDebug_0003 [Text ''Download file from'', Texts urls] #
      map (\<lambda>p. DownloadFile (fst p) ca (snd p)) (zip urls fss)"
    using urls fss by (simp add: getFiles_def run_simps)
  have an: "answer ?run = Inr (concat fss)"
    using urls fss by (simp add: getFiles_def run_simps flatten_concat)
  have 1: "lookups_before_downloads (trace ?run)"
    unfolding tr by (rule lookups_then_downloads) simp_all
  have 2: "map fst (collect lookup_of (trace ?run)) = sources"
    unfolding tr using urls(1)
    by (simp add: collect_simps collect_lookup_of collect_download_of)
  have 3: "map fst (collect download_of (trace ?run)) = map snd (collect lookup_of (trace ?run))"
    unfolding tr using urls(1) fss(1)
    by (simp add: collect_simps collect_lookup_of collect_download_of comp_def)
  have 4: "map (\<lambda>d. fst (snd d)) (collect download_of (trace ?run)) =
      replicate (length sources) ca"
    unfolding tr using urls(1) fss(1)
    by (simp add: collect_simps collect_lookup_of collect_download_of comp_def map_replicate_const)
  have 5: "answer ?run = Inr (concat (map (\<lambda>d. snd (snd d)) (collect download_of (trace ?run))))"
    unfolding tr an using urls(1) fss(1)
    by (simp add: collect_simps collect_lookup_of collect_download_of comp_def)
  from 1 2 3 4 5 show ?thesis by simp
qed

theorem getFiles_npm_phases_witness:
  "lookups_before_downloads (trace (getFiles demo_env ''/work'' [''pilet-a'', ''pilet-b'']
     FromNpm False None info None [] None [] [http 200])) \<and>
   collect lookup_of (trace (getFiles demo_env ''/work'' [''pilet-a'', ''pilet-b'']
     FromNpm False None info None [] None [] [http 200])) =
     [(''pilet-a'', ''registry/pilet-a''), (''pilet-b'', ''registry/pilet-b'')] \<and>
   map fst (collect download_of (trace (getFiles demo_env ''/work'' [''pilet-a'', ''pilet-b'']
     FromNpm False None info None [] None [] [http 200]))) =
     [''registry/pilet-a'', ''registry/pilet-b'']"
  using getFiles_npm_phases [of demo_env "''/work''" "[''pilet-a'', ''pilet-b'']" None info None
      "[]" None "[]" "[http 200]"]
  by (simp add: model_defs demo_defs run_simps Let_def collect_simps lookups_before_downloads_def)

subsection \<open>The order of a fresh run\<close>

text \<open>A fresh run with two entry modules: both builds are triggered before either is
  packed.\<close>

lemma getFiles_fresh_two_entries:
  "map b_entryModule (collect build_of (trace (getFiles entries_env ''/work'' [''./src/index'']
     FromLocal True None info None [] None [] []))) = [''one'', ''two''] \<and>
   collect pack_of (dropWhile (\<lambda>e. pack_of e = []) (trace (getFiles entries_env ''/work''
     [''./src/index''] FromLocal True None info None [] None [] []))) = [''one'', ''two''] \<and>
   collect build_of (dropWhile (\<lambda>e. pack_of e = []) (trace (getFiles entries_env ''/work''
     [''./src/index''] FromLocal True None info None [] None [] []))) = [] \<and>
   answer (getFiles entries_env ''/work'' [''./src/index''] FromLocal True None info None []
     None [] []) = Inr [''one.tgz'', ''two.tgz'']"
  by (simp add: model_defs demo_defs run_simps Let_def collect_simps)

end
